theory Spec2Isabelle
  imports Main "HOL-Library.Word"
begin

section \<open>Python values used by the toolbox\<close>

text \<open>
  Exceptions are values. Only instances of Python's \<open>Exception\<close> are modelled: these are
  what \<open>except Exception\<close> catches and what the HTTP transport, a dictionary lookup, a
  call of \<open>None\<close> or a user handler can raise.
\<close>

datatype exn =
    AttributeError string
  | TypeError string
  | KeyError string
  | ValueError string
  | RuntimeError string
  | StructError string
  | ClientError string

type_synonym 'a result = "exn + 'a"

text \<open>JSON documents as \<open>response.json()\<close> yields them; a JSON object is a Python dict.\<close>

datatype json =
    JNull
  | JBool bool
  | JNum int
  | JStr string
  | JArr "json list"
  | JObj "(string \<times> json) list"

type_synonym envelope = "(string \<times> json) list"

text \<open>\<open>d[k]\<close> on a dict: the value, or \<open>KeyError\<close>.\<close>

definition getitem :: "envelope \<Rightarrow> string \<Rightarrow> json result" where
  "getitem d k = (case map_of d k of None \<Rightarrow> Inl (KeyError k) | Some v \<Rightarrow> Inr v)"

text \<open>\<open>str(n)\<close> for a Python int: decimal digits, with a minus sign below zero.\<close>

function str_nat :: "nat \<Rightarrow> string" where
  "str_nat n = (if n < 10 then [''0123456789'' ! n]
                else str_nat (n div 10) @ [''0123456789'' ! (n mod 10)])"
  by pat_completeness auto
termination
  by (relation "measure id") auto

declare str_nat.simps [simp del]

definition str_int :: "int \<Rightarrow> string" where
  "str_int i = (if i < 0 then CHR ''-'' # str_nat (nat (- i)) else str_nat (nat i))"

text \<open>Python \<open>bytes\<close>: a sequence of octets. literals \<open>b'...'\<close> are ASCII.\<close>

type_synonym bytes = "8 word list"

definition ascii :: "string \<Rightarrow> bytes" where
  "ascii s = map of_char s"

text \<open>\<open>bytes.hex()\<close>: two lower-case hexadecimal digits for each octet.\<close>

definition hex_digit :: "nat \<Rightarrow> char" where
  "hex_digit d = ''0123456789abcdef'' ! d"

definition hex :: "bytes \<Rightarrow> string" where
  "hex bs = concat (map (\<lambda>b. [hex_digit (unat b div 16), hex_digit (unat b mod 16)]) bs)"

text \<open>
  \<open>struct.unpack('<I', seq)\<close>: the buffer must hold exactly 4 octets, else
  \<open>struct.error\<close>. The result is a 1-tuple; the function returns its only component, the
  little-endian unsigned reading, which the index \<open>[-1]\<close> selects.
\<close>

definition le_uint :: "bytes \<Rightarrow> nat" where
  "le_uint bs = foldr (\<lambda>b acc. unat b + 256 * acc) bs 0"

definition struct_unpack_I :: "bytes \<Rightarrow> nat result" where
  "struct_unpack_I seq =
     (if length seq = 4 then Inr (le_uint seq)
      else Inl (StructError ''unpack requires a buffer of 4 bytes''))"

section \<open>utils.py\<close>

text \<open>
  \<open>make_url\<close>: every keyword argument defaults to \<open>None\<close>; a part is added when the
  argument is truthy (neither \<open>None\<close> nor empty, for the port not \<open>0\<close>). \<open>opt_str\<close> reads
  an optional string with \<open>None\<close> as the empty one, which is as falsy.
\<close>

definition opt_str :: "string option \<Rightarrow> string" where
  "opt_str s = (case s of None \<Rightarrow> [] | Some t \<Rightarrow> t)"

definition make_url ::
  "string \<Rightarrow> string option \<Rightarrow> string option \<Rightarrow> int option \<Rightarrow> string option \<Rightarrow> string" where
  "make_url host user password port protocol =
     (let res = [];
          res = (if opt_str protocol \<noteq> [] then res @ opt_str protocol @ ''://'' else res);
          res = (if opt_str user \<noteq> []
                 then (let res = res @ opt_str user;
                           res = (if opt_str password \<noteq> []
                                  then res @ '':'' @ opt_str password else res)
                       in res @ ''@'')
                 else res);
          res = res @ host;
          res = (case port of None \<Rightarrow> res
                 | Some p \<Rightarrow> if p \<noteq> 0 then res @ '':'' @ str_int p else res)
      in res)"

text \<open>\<open>range(start, stop, step)\<close> for a positive step.\<close>

definition py_range :: "nat \<Rightarrow> nat \<Rightarrow> nat \<Rightarrow> nat list" where
  "py_range start stop step = map (\<lambda>j. start + j * step) [0 ..< (stop - start + step - 1) div step]"

text \<open>
  \<open>split_into_chunks\<close>: the generator \<open>lst[i: i + chunk_size]\<close> for \<open>i\<close> in
  \<open>range(0, len(lst), chunk_size)\<close>, as the list its consumer builds from it.
\<close>

definition split_into_chunks :: "'a list \<Rightarrow> int \<Rightarrow> 'a list list" where
  "split_into_chunks lst chunk_size =
     (let chunk_size = nat (max chunk_size 1)
      in map (\<lambda>i. take chunk_size (drop i lst)) (py_range 0 (length lst) chunk_size))"

text \<open>
  \<open>flatten\<close>: \<open>reduce(operator.concat, lst)\<close>. Without an initial value \<open>reduce\<close> raises
  \<open>TypeError\<close> on an empty sequence; otherwise it folds from the left, starting with the
  first element.
\<close>

definition flatten :: "'a list list \<Rightarrow> 'a list result" where
  "flatten lst =
     (case lst of
        [] \<Rightarrow> Inl (TypeError ''reduce() of empty iterable with no initial value'')
      | x # xs \<Rightarrow> Inr (foldl (@) x xs))"

section \<open>rpc.py\<close>

text \<open>
  An \<open>RPC\<close> object. Its \<open>id\<close> is \<open>random.randint(0, 2 ** 32)\<close>; the constructor takes
  the outcome of that draw as its last argument. The fields \<open>method\<close> and \<open>id\<close> are
  \<open>rpc_method\<close> and \<open>rpc_id\<close> here.
\<close>

record rpc =
  rpc_method :: string
  params :: "json list"
  jsonrpc :: string
  rpc_id :: nat

definition RPC :: "string \<Rightarrow> json list \<Rightarrow> nat \<Rightarrow> rpc" where
  "RPC m ps k = \<lparr>rpc_method = m, params = ps, jsonrpc = ''2.0'', rpc_id = k\<rparr>"

definition assemble :: "rpc \<Rightarrow> json" where
  "assemble r =
     JObj [(''method'', JStr (rpc_method r)), (''params'', JArr (params r)),
           (''jsonrpc'', JStr (jsonrpc r)), (''id'', JNum (int (rpc_id r)))]"

record rpc_batch =
  rpc_list :: "rpc list"

definition RPCBatch :: "rpc list \<Rightarrow> rpc_batch" where
  "RPCBatch method_list = \<lparr>rpc_list = method_list\<rparr>"

definition assemble_batch :: "rpc_batch \<Rightarrow> json" where
  "assemble_batch b =
     JArr (map (\<lambda>r. JObj [(''method'', JStr (rpc_method r)), (''params'', JArr (params r)),
                            (''jsonrpc'', JStr (jsonrpc r)), (''id'', JNum (int (rpc_id r)))])
               (rpc_list b))"

text \<open>
  The aiohttp objects, as far as the handler uses them: a timeout with its total number
  of seconds, and a client session that carries its timeout and knows whether it is closed.
\<close>

record client_timeout =
  total :: nat

record client_session =
  session_timeout :: client_timeout
  closed :: bool

text \<open>
  The HTTP exchange of \<open>execute\<close>, \<open>session.post(url, json=payload)\<close> followed by
  \<open>response.json()\<close>, is a parameter: given the URL, the session, the payload and the
  state of the network it either raises or returns the decoded body, and leaves a new
  network state. \<open>'r\<close> is the type of the decoded body: a dict for a single request, a list
  of dicts for a batch.
\<close>

type_synonym ('n, 'r) transport =
  "string \<Rightarrow> client_session \<Rightarrow> json \<Rightarrow> 'n \<Rightarrow> 'r result \<times> 'n"

text \<open>What is observed on the wire: a payload is posted, then the exchange returns or raises.\<close>

datatype wire_event = Posted string json | Returned | Raised exn

section \<open>rpc_wrapper.py\<close>

text \<open>
  The fields of an \<open>RPCHandler\<close> (the logger and the event loop handle are ambient), and
  around them the environment the handler acts on: the network, the trace of exchanges,
  the number of client sessions constructed so far, the source of random draws and how
  many were taken, whether an event loop is running and which sessions tasks were
  created to close.
\<close>

record rpc_handler =
  url :: string
  connected :: bool
  session :: "client_session option"
  timeout :: client_timeout

record 'n rpc_world = rpc_handler +
  net :: 'n
  wire :: "wire_event list"
  contexts :: nat
  entropy :: "nat \<Rightarrow> nat"
  drawn :: nat
  loop_running :: bool
  close_tasks :: "client_session list"

definition CHUNK_SIZE :: int where
  "CHUNK_SIZE = 100"

text \<open>\<open>random.randint(0, 2 ** 32)\<close>: both ends are possible outcomes.\<close>

definition randint :: "'n rpc_world \<Rightarrow> nat \<times> 'n rpc_world" where
  "randint w = (entropy w (drawn w) mod (2 ^ 32 + 1), w\<lparr>drawn := Suc (drawn w)\<rparr>)"

text \<open>
  \<open>RPCHandler.__init__\<close>, placed in an environment where nothing has happened yet.
\<close>

definition RPCHandler ::
  "string \<Rightarrow> string \<Rightarrow> string \<Rightarrow> int \<Rightarrow> 'n \<Rightarrow> (nat \<Rightarrow> nat) \<Rightarrow> bool \<Rightarrow> 'n rpc_world" where
  "RPCHandler user password host port n0 rnd running =
     \<lparr>url = make_url host (Some user) (Some password) (Some port) (Some ''http''),
      connected = False,
      session = None,
      timeout = \<lparr>total = 1200\<rparr>,
      net = n0, wire = [], contexts = 0, entropy = rnd, drawn = 0,
      loop_running = running, close_tasks = []\<rparr>"

text \<open>
  \<open>__del__\<close>: reads \<open>self.session.closed\<close>; on \<open>None\<close> that attribute access raises.
  \<open>asyncio.create_task\<close> needs a running loop, else \<open>RuntimeError\<close>.
\<close>

definition del :: "'n rpc_world \<Rightarrow> unit result \<times> 'n rpc_world" where
  "del w =
     (case session w of
        None \<Rightarrow> (Inl (AttributeError ''closed''), w)
      | Some s \<Rightarrow>
          if \<not> closed s then
            (if loop_running w then (Inr (), w\<lparr>close_tasks := close_tasks w @ [s]\<rparr>)
             else (Inl (RuntimeError ''no running event loop''), w))
          else (Inr (), w))"

definition init_session :: "'n rpc_world \<Rightarrow> 'n rpc_world" where
  "init_session w =
     (if session w = None
      then w\<lparr>session := Some \<lparr>session_timeout = timeout w, closed = False\<rparr>,
             contexts := Suc (contexts w)\<rparr>
      else w)"

text \<open>
  \<open>rpc.execute(url, session)\<close>: posts the assembled payload through the session. With
  \<open>None\<close> for the session the attribute access \<open>session.post\<close> raises.
\<close>

definition execute ::
  "('n, 'r) transport \<Rightarrow> json \<Rightarrow> string \<Rightarrow> client_session option \<Rightarrow> 'n rpc_world
     \<Rightarrow> 'r result \<times> 'n rpc_world" where
  "execute post payload u sess w =
     (case sess of
        None \<Rightarrow> (Inl (AttributeError ''post''), w)
      | Some s \<Rightarrow>
          (let w = w\<lparr>wire := wire w @ [Posted u payload]\<rparr>;
               (r, n) = post u s payload (net w);
               w = w\<lparr>net := n\<rparr>
           in (r, w\<lparr>wire := wire w @ [case r of Inl e \<Rightarrow> Raised e | Inr _ \<Rightarrow> Returned]\<rparr>)))"

text \<open>
  \<open>_execute_rpc_single\<close>. Everything from the exchange to the \<open>return\<close> is inside the
  \<open>try\<close>, the two lookups of the log messages included; any exception gives \<open>None\<close>.
\<close>

definition execute_rpc_single ::
  "('n, envelope) transport \<Rightarrow> string \<Rightarrow> json list option \<Rightarrow> 'n rpc_world
     \<Rightarrow> envelope option \<times> 'n rpc_world" where
  "execute_rpc_single post m ps w =
     (let w = init_session w;
          ps = (case ps of None \<Rightarrow> [] | Some p \<Rightarrow> p);
          (k, w) = randint w;
          rpc = RPC m ps k
      in case execute post (assemble rpc) (url w) (session w) w of
           (Inl e, w) \<Rightarrow> (None, w)
         | (Inr result, w) \<Rightarrow>
             (case getitem result ''error'' of
                Inl e \<Rightarrow> (None, w)
              | Inr err \<Rightarrow>
                  if err \<noteq> JNull then (Some result, w)
                  else (case getitem result ''result'' of
                          Inl e \<Rightarrow> (None, w)
                        | Inr r \<Rightarrow> (Some result, w))))"

text \<open>
  The comprehension \<open>[RPCBatch([RPC(method, params) for method, params in c]) for c in chunks]\<close>:
  the requests are constructed in input order, each taking one random draw.
\<close>

fun new_rpcs :: "(string \<times> json list) list \<Rightarrow> 'n rpc_world \<Rightarrow> rpc list \<times> 'n rpc_world" where
  "new_rpcs [] w = ([], w)"
| "new_rpcs ((m, ps) # c) w =
     (let (k, w) = randint w;
          (rs, w) = new_rpcs c w
      in (RPC m ps k # rs, w))"

fun new_batches ::
  "(string \<times> json list) list list \<Rightarrow> 'n rpc_world \<Rightarrow> rpc_batch list \<times> 'n rpc_world" where
  "new_batches [] w = ([], w)"
| "new_batches (c # cs) w =
     (let (rs, w) = new_rpcs c w;
          (bs, w) = new_batches cs w
      in (RPCBatch rs # bs, w))"

text \<open>
  The loop \<open>for rpc in rpc_batch_chunks: res.append(await rpc.execute(...))\<close>: one
  exchange after the other, each on the state the previous one left; the first exception
  ends the loop.
\<close>

fun dispatch ::
  "('n, envelope list) transport \<Rightarrow> rpc_batch list \<Rightarrow> envelope list list \<Rightarrow> 'n rpc_world
     \<Rightarrow> envelope list list result \<times> 'n rpc_world" where
  "dispatch post [] res w = (Inr res, w)"
| "dispatch post (rpc # rest) res w =
     (case execute post (assemble_batch rpc) (url w) (session w) w of
        (Inl e, w) \<Rightarrow> (Inl e, w)
      | (Inr r, w) \<Rightarrow> dispatch post rest (res @ [r]) w)"

definition execute_rpc_batch ::
  "('n, envelope list) transport \<Rightarrow> (string \<times> json list) list \<Rightarrow> 'n rpc_world
     \<Rightarrow> envelope list option \<times> 'n rpc_world" where
  "execute_rpc_batch post method_list w =
     (if method_list = [] then (Some [], w)
      else
        (let w = init_session w;
             chunks = split_into_chunks method_list CHUNK_SIZE;
             (rpc_batch_chunks, w) = new_batches chunks w
         in case dispatch post rpc_batch_chunks [] w of
              (Inl e, w) \<Rightarrow> (None, w)
            | (Inr res, w) \<Rightarrow>
                if res \<noteq> [] then
                  (case flatten res of Inl e \<Rightarrow> (None, w) | Inr r \<Rightarrow> (Some r, w))
                else (Some [], w)))"

text \<open>
  What a facade call returns: a value, or a (result, error) pair. Python's \<open>None\<close> is the
  value \<open>JNull\<close>: the absent sentinel and a null result are the same object.
\<close>

datatype answer = Value json | Pair json json

definition process_rpc_response :: "envelope option \<Rightarrow> bool \<Rightarrow> answer result" where
  "process_rpc_response response return_error =
     (case response of
        None \<Rightarrow> Inr (Value JNull)
      | Some d \<Rightarrow>
          if d = [] then Inr (Value JNull)
          else if return_error then
            (case getitem d ''result'' of
               Inl e \<Rightarrow> Inl e
             | Inr r \<Rightarrow> (case getitem d ''error'' of Inl e \<Rightarrow> Inl e | Inr er \<Rightarrow> Inr (Pair r er)))
          else (case getitem d ''result'' of Inl e \<Rightarrow> Inl e | Inr r \<Rightarrow> Inr (Value r)))"

text \<open>A list comprehension whose element expression may raise.\<close>

fun comprehension :: "('a \<Rightarrow> 'b result) \<Rightarrow> 'a list \<Rightarrow> 'b list result" where
  "comprehension f [] = Inr []"
| "comprehension f (x # xs) =
     (case f x of
        Inl e \<Rightarrow> Inl e
      | Inr y \<Rightarrow> (case comprehension f xs of Inl e \<Rightarrow> Inl e | Inr ys \<Rightarrow> Inr (y # ys)))"

definition process_rpc_response_batch :: "envelope list option \<Rightarrow> bool \<Rightarrow> answer list result" where
  "process_rpc_response_batch response return_error =
     (case response of
        None \<Rightarrow> Inr []
      | Some rs \<Rightarrow>
          if rs = [] then Inr []
          else if return_error then
            comprehension
              (\<lambda>r. case getitem r ''result'' of
                      Inl e \<Rightarrow> Inl e
                    | Inr x \<Rightarrow> (case getitem r ''error'' of Inl e \<Rightarrow> Inl e | Inr er \<Rightarrow> Inr (Pair x er)))
              rs
          else
            comprehension
              (\<lambda>r. case getitem r ''result'' of Inl e \<Rightarrow> Inl e | Inr x \<Rightarrow> Inr (Value x))
              rs)"

text \<open>The facade: each method builds its request(s), executes and normalizes.\<close>

definition get_block ::
  "('n, envelope) transport \<Rightarrow> string \<Rightarrow> bool \<Rightarrow> 'n rpc_world \<Rightarrow> answer result \<times> 'n rpc_world" where
  "get_block post blk_hash return_error w =
     (let (resp, w) = execute_rpc_single post ''getblock'' (Some [JStr blk_hash, JNum 2]) w
      in (process_rpc_response resp return_error, w))"

definition get_block_hash ::
  "('n, envelope) transport \<Rightarrow> int \<Rightarrow> bool \<Rightarrow> 'n rpc_world \<Rightarrow> answer result \<times> 'n rpc_world" where
  "get_block_hash post blk_height return_error w =
     (let (resp, w) = execute_rpc_single post ''getblockhash'' (Some [JNum blk_height]) w
      in (process_rpc_response resp return_error, w))"

definition get_new_address ::
  "('n, envelope) transport \<Rightarrow> bool \<Rightarrow> 'n rpc_world \<Rightarrow> answer result \<times> 'n rpc_world" where
  "get_new_address post return_error w =
     (let (resp, w) = execute_rpc_single post ''getnewaddress'' None w
      in (process_rpc_response resp return_error, w))"

definition get_block_hash_batch ::
  "('n, envelope list) transport \<Rightarrow> int list \<Rightarrow> bool \<Rightarrow> 'n rpc_world
     \<Rightarrow> answer list result \<times> 'n rpc_world" where
  "get_block_hash_batch post blk_height_list return_error w =
     (let method_list = map (\<lambda>blk_height. (''getblockhash'', [JNum blk_height])) blk_height_list;
          (resp, w) = execute_rpc_batch post method_list w
      in (process_rpc_response_batch resp return_error, w))"

definition get_block_batch ::
  "('n, envelope list) transport \<Rightarrow> string list \<Rightarrow> bool \<Rightarrow> 'n rpc_world
     \<Rightarrow> answer list result \<times> 'n rpc_world" where
  "get_block_batch post blk_hash_list return_error w =
     (let method_list = map (\<lambda>blk_hash. (''getblock'', [JStr blk_hash, JNum 2])) blk_hash_list;
          (resp, w) = execute_rpc_batch post method_list w
      in (process_rpc_response_batch resp return_error, w))"

section \<open>zmq_wrapper.py\<close>

text \<open>
  A handler is a coroutine of the caller: it acts on the caller's state \<open>'h\<close> and returns
  or raises. An instance attribute was never assigned, holds \<open>None\<close>, or holds an object.
\<close>

type_synonym 'h callback = "bytes \<Rightarrow> 'h \<Rightarrow> unit result \<times> 'h"

datatype 'a attr = Unset | PyNone | Obj 'a

definition arg_value :: "'a option \<Rightarrow> 'a attr" where
  "arg_value a = (case a of None \<Rightarrow> PyNone | Some f \<Rightarrow> Obj f)"

text \<open>The SUB socket: its receive high-water mark, its topic filters, its endpoints.\<close>

record zmq_socket =
  rcvhwm :: "int option"
  subscriptions :: "string list"
  endpoints :: "string list"

definition setsockopt_subscribe :: "string \<Rightarrow> zmq_socket \<Rightarrow> zmq_socket" where
  "setsockopt_subscribe t k = k\<lparr>subscriptions := subscriptions k @ [t]\<rparr>"

text \<open>
  The fields of a \<open>ZMQHandler\<close> (its URL is \<open>url_zmq\<close> here), and around them the state of
  the caller's handlers, the debug lines logged, the number of \<open>handle\<close> tasks created on
  the loop, and whether the context was destroyed.
\<close>

record 'h zmq_handler =
  url_zmq :: string
  hashblock_handler :: "'h callback attr"
  hashtx_handler :: "'h callback attr"
  rawblock_handler :: "'h callback attr"
  rawtx_handler :: "'h callback attr"
  sequence_handler :: "'h callback attr"
  zmqSubSocket :: zmq_socket

record 'h zmq_world = "'h zmq_handler" +
  user :: 'h
  debug_log :: "string list"
  tasks :: nat
  destroyed :: bool

text \<open>
  \<open>ZMQHandler.__init__\<close>. Four attributes are assigned whatever was passed;
  \<open>hashblock_handler\<close> is assigned only inside its \<open>if\<close>. A function object is truthy.
\<close>

definition ZMQHandler ::
  "string \<Rightarrow> int \<Rightarrow> 'h callback option \<Rightarrow> 'h callback option \<Rightarrow> 'h callback option
     \<Rightarrow> 'h callback option \<Rightarrow> 'h callback option \<Rightarrow> 'h \<Rightarrow> 'h zmq_world" where
  "ZMQHandler host port hashblock hashtx rawblock rawtx sequence u0 =
     (let z = \<lparr>url_zmq = make_url host None None (Some port) (Some ''tcp''),
               hashblock_handler = Unset,
               hashtx_handler = arg_value hashtx,
               rawblock_handler = arg_value rawblock,
               rawtx_handler = arg_value rawtx,
               sequence_handler = arg_value sequence,
               zmqSubSocket = \<lparr>rcvhwm = None, subscriptions = [], endpoints = []\<rparr>,
               user = u0, debug_log = [], tasks = 0, destroyed = False\<rparr>;
          z = z\<lparr>zmqSubSocket := (zmqSubSocket z)\<lparr>rcvhwm := Some 0\<rparr>\<rparr>;
          z = (case hashtx of None \<Rightarrow> z
               | Some f \<Rightarrow> z\<lparr>hashtx_handler := Obj f,
                             zmqSubSocket := setsockopt_subscribe ''hashtx'' (zmqSubSocket z)\<rparr>);
          z = (case rawblock of None \<Rightarrow> z
               | Some f \<Rightarrow> z\<lparr>rawblock_handler := Obj f,
                             zmqSubSocket := setsockopt_subscribe ''rawblock'' (zmqSubSocket z)\<rparr>);
          z = (case rawtx of None \<Rightarrow> z
               | Some f \<Rightarrow> z\<lparr>rawtx_handler := Obj f,
                             zmqSubSocket := setsockopt_subscribe ''rawtx'' (zmqSubSocket z)\<rparr>);
          z = (case sequence of None \<Rightarrow> z
               | Some f \<Rightarrow> z\<lparr>sequence_handler := Obj f,
                             zmqSubSocket := setsockopt_subscribe ''sequence'' (zmqSubSocket z)\<rparr>);
          z = (case hashblock of None \<Rightarrow> z
               | Some f \<Rightarrow> z\<lparr>hashblock_handler := Obj f,
                             zmqSubSocket := setsockopt_subscribe ''hashblock'' (zmqSubSocket z)\<rparr>)
      in z\<lparr>zmqSubSocket := (zmqSubSocket z)\<lparr>endpoints := endpoints (zmqSubSocket z) @ [url_zmq z]\<rparr>\<rparr>)"

text \<open>
  \<open>await self.x_handler(body)\<close>: reading an attribute that was never assigned raises
  \<open>AttributeError\<close>, calling \<open>None\<close> raises \<open>TypeError\<close>, and a handler runs on the
  caller's state.
\<close>

definition await_handler ::
  "'h callback attr \<Rightarrow> string \<Rightarrow> bytes \<Rightarrow> 'h zmq_world \<Rightarrow> unit result \<times> 'h zmq_world" where
  "await_handler a name body w =
     (case a of
        Unset \<Rightarrow> (Inl (AttributeError name), w)
      | PyNone \<Rightarrow> (Inl (TypeError ''NoneType object is not callable''), w)
      | Obj f \<Rightarrow> (let (r, u) = f body (user w) in (r, w\<lparr>user := u\<rparr>)))"

definition debug :: "string \<Rightarrow> 'h zmq_world \<Rightarrow> 'h zmq_world" where
  "debug line w = w\<lparr>debug_log := debug_log w @ [line]\<rparr>"

text \<open>\<open>self.loop.create_task(self.handle())\<close>: one more receive cycle is scheduled.\<close>

definition create_task_handle :: "'h zmq_world \<Rightarrow> 'h zmq_world" where
  "create_task_handle w = w\<lparr>tasks := Suc (tasks w)\<rparr>"

text \<open>
  The first lines of \<open>handle\<close> after the receive: \<open>sequence = 'Unknown'\<close>, replaced by
  \<open>str(struct.unpack('<I', seq)[-1])\<close> when \<open>len(seq) == 4\<close>.
\<close>

definition sequence_of :: "bytes \<Rightarrow> string result" where
  "sequence_of seq =
     (let sequence = ''Unknown''
      in if length seq = 4
         then (case struct_unpack_I seq of Inl e \<Rightarrow> Inl e | Inr v \<Rightarrow> Inr (str_int (int v)))
         else Inr sequence)"

text \<open>
  \<open>handle\<close>, given what \<open>await self.zmqSubSocket.recv_multipart()\<close> produced: an
  exception, or the frames of one message. Unpacking the frames into three names raises
  \<open>ValueError\<close> unless there are exactly three. The last statement, the re-arm, is reached
  only when nothing raised before it.
\<close>

definition handle :: "bytes list result \<Rightarrow> 'h zmq_world \<Rightarrow> unit result \<times> 'h zmq_world" where
  "handle received w =
     (case received of
        Inl e \<Rightarrow> (Inl e, w)
      | Inr [topic, body, seq] \<Rightarrow>
          (case sequence_of seq of
             Inl e \<Rightarrow> (Inl e, w)
           | Inr sequence \<Rightarrow>
               (case
                  (if topic = ascii ''hashblock'' then
                     await_handler (hashblock_handler w) ''hashblock_handler'' body
                       (debug (''HASH BLOCK ('' @ sequence @ ''): '' @ hex body) w)
                   else if topic = ascii ''hashtx'' then
                     await_handler (hashtx_handler w) ''hashtx_handler'' body
                       (debug (''HASH TX  ('' @ sequence @ ''): '' @ hex body) w)
                   else if topic = ascii ''rawblock'' then
                     await_handler (rawblock_handler w) ''rawblock_handler'' body
                       (debug (''RAW BLOCK ('' @ sequence @ ''): '' @ hex body) w)
                   else if topic = ascii ''rawtx'' then
                     await_handler (rawtx_handler w) ''rawtx_handler'' body
                       (debug (''RAW TX ('' @ sequence @ ''): '' @ hex body) w)
                   else if topic = ascii ''sequence'' then
                     await_handler (sequence_handler w) ''sequence_handler'' body
                       (debug (''SEQUENCE ('' @ sequence @ ''): '' @ hex body) w)
                   else (Inr (), w))
                of
                  (Inl e, w) \<Rightarrow> (Inl e, w)
                | (Inr u, w) \<Rightarrow> (Inr (), create_task_handle w)))
      | Inr _ \<Rightarrow> (Inl (ValueError ''wrong number of values to unpack''), w))"

definition start :: "'h zmq_world \<Rightarrow> 'h zmq_world" where
  "start w = create_task_handle w"

definition stop :: "'h zmq_world \<Rightarrow> 'h zmq_world" where
  "stop w = w\<lparr>destroyed := True\<rparr>"

section \<open>The sequence frame\<close>

lemma unat_byte_le: "unat (b :: 8 word) \<le> 255"
  using unsigned_less [of b, where ?'a = nat] by simp

lemma le_uint4_bound:
  fixes b0 b1 b2 b3 :: "8 word"
  shows "unat b0 + 2 ^ 8 * unat b1 + 2 ^ 16 * unat b2 + 2 ^ 24 * unat b3 < (2 ^ 32 :: nat)"
  using unat_byte_le [of b0] unat_byte_le [of b1] unat_byte_le [of b2] unat_byte_le [of b3]
  by simp

lemma await_handler_debug:
  "await_handler a nm body (debug l w) =
     (fst (await_handler a nm body w), debug l (snd (await_handler a nm body w)))"
  by (cases a) (simp_all add: await_handler_def debug_def split: prod.splits)

lemma sequence_of_total: "\<exists>s. sequence_of seq = Inr s"
  by (simp add: sequence_of_def struct_unpack_I_def)

lemma handle_seq_independent:
  "fst (handle (Inr [topic, body, seq]) w) = fst (handle (Inr [topic, body, seq']) w)"
proof -
  obtain s where s: "sequence_of seq = Inr s"
    using sequence_of_total by blast
  obtain s' where s': "sequence_of seq' = Inr s'"
    using sequence_of_total by blast
  show ?thesis
    by (simp add: handle_def s s' await_handler_debug split: sum.splits)
qed

text \<open>
  C7. The sequence frame is read as a 4-byte little-endian unsigned integer exactly when it
  holds 4 octets, and its decimal text is the sequence; the frame \<open>01 00 00 00\<close> gives
  \<open>1\<close>. A frame of any other length, the empty one included, gives \<open>Unknown\<close>. The
  decoding never raises, and whether \<open>handle\<close> returns or raises does not depend on the
  sequence frame.
\<close>

theorem sequence_decoding:
  "sequence_of [b0, b1, b2, b3] =
     Inr (str_int (int (unat b0 + 2 ^ 8 * unat b1 + 2 ^ 16 * unat b2 + 2 ^ 24 * unat b3)))
   \<and> unat b0 + 2 ^ 8 * unat b1 + 2 ^ 16 * unat b2 + 2 ^ 24 * unat b3 < 2 ^ 32
   \<and> (length seq \<noteq> 4 \<longrightarrow> sequence_of seq = Inr ''Unknown'')
   \<and> (length seq = 4 \<longrightarrow> sequence_of seq = Inr (str_int (int (le_uint seq))))
   \<and> sequence_of [1, 0, 0, 0] = Inr ''1''
   \<and> sequence_of [] = Inr ''Unknown''
   \<and> (\<exists>s. sequence_of seq = Inr s)
   \<and> fst (handle (Inr [topic, body, seq]) w) = fst (handle (Inr [topic, body, []]) w)"
proof -
  have a: "sequence_of [b0, b1, b2, b3] =
     Inr (str_int (int (unat b0 + 2 ^ 8 * unat b1 + 2 ^ 16 * unat b2 + 2 ^ 24 * unat b3)))"
    by (simp add: sequence_of_def struct_unpack_I_def le_uint_def add.assoc)
  have c: "length seq \<noteq> 4 \<longrightarrow> sequence_of seq = Inr ''Unknown''"
    by (simp add: sequence_of_def)
  have d: "length seq = 4 \<longrightarrow> sequence_of seq = Inr (str_int (int (le_uint seq)))"
    by (simp add: sequence_of_def struct_unpack_I_def)
  have e: "sequence_of [1, 0, 0, 0] = Inr ''1''"
    by (simp add: sequence_of_def struct_unpack_I_def le_uint_def str_int_def str_nat.simps)
  have f: "sequence_of [] = Inr ''Unknown''"
    by (simp add: sequence_of_def)
  show ?thesis
    using a le_uint4_bound [of b0 b1 b2 b3] c d e f sequence_of_total [of seq]
      handle_seq_independent [of topic body seq w "[]"]
    by blast
qed

theorem sequence_decoding_witness:
  "sequence_of [255, 255, 255, 255] = Inr ''4294967295''
   \<and> length [7 :: 8 word] \<noteq> 4 \<and> sequence_of [7] = Inr ''Unknown''"
  using sequence_decoding [of 255 255 255 255 "[7]" "[]" "[]"
      "ZMQHandler ''localhost'' 28332 None None None None None ()"]
  by (simp add: str_int_def str_nat.simps)

section \<open>The receive cycle\<close>

lemma tasks_await_handler:
  "tasks (snd (await_handler a nm body (debug l w))) = tasks w"
  by (cases a) (simp_all add: await_handler_def debug_def split: prod.splits)

lemma rearm_after_dispatch:
  assumes "tasks (snd X) = t"
  shows "(fst (case X of (Inl e, w) \<Rightarrow> (Inl e, w) | (Inr u, w) \<Rightarrow> (Inr (), create_task_handle w)) = Inr ()
           \<longrightarrow> tasks (snd (case X of (Inl e, w) \<Rightarrow> (Inl e, w)
                                       | (Inr u, w) \<Rightarrow> (Inr (), create_task_handle w))) = Suc t)
       \<and> (isl (fst (case X of (Inl e, w) \<Rightarrow> (Inl e, w) | (Inr u, w) \<Rightarrow> (Inr (), create_task_handle w)))
           \<longrightarrow> tasks (snd (case X of (Inl e, w) \<Rightarrow> (Inl e, w)
                                       | (Inr u, w) \<Rightarrow> (Inr (), create_task_handle w))) = t)"
  using assms by (cases X; cases "fst X") (simp_all add: create_task_handle_def)

lemma ZMQHandler_subscriptions:
  "subscriptions (zmqSubSocket (ZMQHandler host port hashblock hashtx rawblock rawtx sequence u0)) =
     (if hashtx = None then [] else [''hashtx'']) @
     (if rawblock = None then [] else [''rawblock'']) @
     (if rawtx = None then [] else [''rawtx'']) @
     (if sequence = None then [] else [''sequence'']) @
     (if hashblock = None then [] else [''hashblock''])"
  by (cases hashtx; cases rawblock; cases rawtx; cases sequence; cases hashblock)
     (simp_all add: ZMQHandler_def setsockopt_subscribe_def)

lemma ZMQHandler_handlers:
  "hashblock_handler (ZMQHandler host port hashblock hashtx rawblock rawtx sequence u0) =
     (case hashblock of None \<Rightarrow> Unset | Some f \<Rightarrow> Obj f)"
  "hashtx_handler (ZMQHandler host port hashblock hashtx rawblock rawtx sequence u0) =
     (case hashtx of None \<Rightarrow> PyNone | Some f \<Rightarrow> Obj f)"
  "rawblock_handler (ZMQHandler host port hashblock hashtx rawblock rawtx sequence u0) =
     (case rawblock of None \<Rightarrow> PyNone | Some f \<Rightarrow> Obj f)"
  "rawtx_handler (ZMQHandler host port hashblock hashtx rawblock rawtx sequence u0) =
     (case rawtx of None \<Rightarrow> PyNone | Some f \<Rightarrow> Obj f)"
  "sequence_handler (ZMQHandler host port hashblock hashtx rawblock rawtx sequence u0) =
     (case sequence of None \<Rightarrow> PyNone | Some f \<Rightarrow> Obj f)"
  by (cases hashtx; cases rawblock; cases rawtx; cases sequence; cases hashblock;
      simp add: ZMQHandler_def arg_value_def)+

lemma handle_topic:
  assumes "sequence_of seq = Inr s"
  shows "handle (Inr [ascii ''hashblock'', body, seq]) w =
           (case await_handler (hashblock_handler w) ''hashblock_handler'' body
                   (debug (''HASH BLOCK ('' @ s @ ''): '' @ hex body) w) of
              (Inl e, w) \<Rightarrow> (Inl e, w) | (Inr u, w) \<Rightarrow> (Inr (), create_task_handle w))"
    and "handle (Inr [ascii ''hashtx'', body, seq]) w =
           (case await_handler (hashtx_handler w) ''hashtx_handler'' body
                   (debug (''HASH TX  ('' @ s @ ''): '' @ hex body) w) of
              (Inl e, w) \<Rightarrow> (Inl e, w) | (Inr u, w) \<Rightarrow> (Inr (), create_task_handle w))"
    and "handle (Inr [ascii ''rawblock'', body, seq]) w =
           (case await_handler (rawblock_handler w) ''rawblock_handler'' body
                   (debug (''RAW BLOCK ('' @ s @ ''): '' @ hex body) w) of
              (Inl e, w) \<Rightarrow> (Inl e, w) | (Inr u, w) \<Rightarrow> (Inr (), create_task_handle w))"
    and "handle (Inr [ascii ''rawtx'', body, seq]) w =
           (case await_handler (rawtx_handler w) ''rawtx_handler'' body
                   (debug (''RAW TX ('' @ s @ ''): '' @ hex body) w) of
              (Inl e, w) \<Rightarrow> (Inl e, w) | (Inr u, w) \<Rightarrow> (Inr (), create_task_handle w))"
    and "handle (Inr [ascii ''sequence'', body, seq]) w =
           (case await_handler (sequence_handler w) ''sequence_handler'' body
                   (debug (''SEQUENCE ('' @ s @ ''): '' @ hex body) w) of
              (Inl e, w) \<Rightarrow> (Inl e, w) | (Inr u, w) \<Rightarrow> (Inr (), create_task_handle w))"
  using assms by (simp_all add: handle_def ascii_def)

lemma await_missing:
  "fst (await_handler Unset nm body w) = Inl (AttributeError nm)"
  "fst (await_handler PyNone nm body w) = Inl (TypeError ''NoneType object is not callable'')"
  "snd (await_handler Unset nm body w) = w"
  "snd (await_handler PyNone nm body w) = w"
  by (simp_all add: await_handler_def)


text \<open>
  C10. A message whose topic frame is none of the five topic names is ignored: \<open>handle\<close>
  returns normally, the caller's state and the debug log are as before (no handler ran,
  nothing was logged), and one more receive cycle is scheduled.
\<close>

theorem unknown_topic_ignored:
  assumes "topic \<notin> {ascii ''hashblock'', ascii ''hashtx'', ascii ''rawblock'', ascii ''rawtx'',
                      ascii ''sequence''}"
  shows "handle (Inr [topic, body, seq]) w = (Inr (), w\<lparr>tasks := Suc (tasks w)\<rparr>)"
proof -
  obtain s where s: "sequence_of seq = Inr s"
    using sequence_of_total by blast
  from assms have "topic \<noteq> ascii ''hashblock''" "topic \<noteq> ascii ''hashtx''"
    "topic \<noteq> ascii ''rawblock''" "topic \<noteq> ascii ''rawtx''" "topic \<noteq> ascii ''sequence''"
    by blast+
  then show ?thesis
    unfolding handle_def by (simp add: s create_task_handle_def)
qed

text \<open>
  C6. On a handler constructed without a handler for one of the five topics, a message of
  that topic makes \<open>handle\<close> raise: \<open>AttributeError\<close> for \<open>hashblock\<close>, whose attribute was
  never assigned, and \<open>TypeError\<close> for the four others, whose attribute holds \<open>None\<close>.
\<close>

theorem missing_handler_raises:
  assumes "z = ZMQHandler host port hashblock hashtx rawblock rawtx sequence u0"
  shows "(hashblock = None \<longrightarrow>
            fst (handle (Inr [ascii ''hashblock'', body, seq]) z)
              = Inl (AttributeError ''hashblock_handler''))
       \<and> (hashtx = None \<longrightarrow>
            fst (handle (Inr [ascii ''hashtx'', body, seq]) z)
              = Inl (TypeError ''NoneType object is not callable''))
       \<and> (rawblock = None \<longrightarrow>
            fst (handle (Inr [ascii ''rawblock'', body, seq]) z)
              = Inl (TypeError ''NoneType object is not callable''))
       \<and> (rawtx = None \<longrightarrow>
            fst (handle (Inr [ascii ''rawtx'', body, seq]) z)
              = Inl (TypeError ''NoneType object is not callable''))
       \<and> (sequence = None \<longrightarrow>
            fst (handle (Inr [ascii ''sequence'', body, seq]) z)
              = Inl (TypeError ''NoneType object is not callable''))"
proof -
  obtain s where s: "sequence_of seq = Inr s"
    using sequence_of_total by blast
  have r: "fst (case X of (Inl e, w) \<Rightarrow> (Inl e, w) | (Inr u, w) \<Rightarrow> (Inr (), create_task_handle w)) = Inl e"
    if "fst X = Inl e" for X :: "unit result \<times> 'a zmq_world" and e
    using that by (cases X) simp
  have 1: "hashblock = None \<longrightarrow> fst (handle (Inr [ascii ''hashblock'', body, seq]) z)
              = Inl (AttributeError ''hashblock_handler'')"
    unfolding assms by (simp add: handle_topic [OF s] ZMQHandler_handlers r await_missing)
  have 2: "hashtx = None \<longrightarrow> fst (handle (Inr [ascii ''hashtx'', body, seq]) z)
              = Inl (TypeError ''NoneType object is not callable'')"
    unfolding assms by (simp add: handle_topic [OF s] ZMQHandler_handlers r await_missing)
  have 3: "rawblock = None \<longrightarrow> fst (handle (Inr [ascii ''rawblock'', body, seq]) z)
              = Inl (TypeError ''NoneType object is not callable'')"
    unfolding assms by (simp add: handle_topic [OF s] ZMQHandler_handlers r await_missing)
  have 4: "rawtx = None \<longrightarrow> fst (handle (Inr [ascii ''rawtx'', body, seq]) z)
              = Inl (TypeError ''NoneType object is not callable'')"
    unfolding assms by (simp add: handle_topic [OF s] ZMQHandler_handlers r await_missing)
  have 5: "sequence = None \<longrightarrow> fst (handle (Inr [ascii ''sequence'', body, seq]) z)
              = Inl (TypeError ''NoneType object is not callable'')"
    unfolding assms by (simp add: handle_topic [OF s] ZMQHandler_handlers r await_missing)
  from 1 2 3 4 5 show ?thesis by blast
qed

lemma await_obj_outcome:
  assumes "a = Obj f"
    and "H = (case await_handler a nm body (debug l w) of
                (Inl e, w) \<Rightarrow> (Inl e, w) | (Inr x, w) \<Rightarrow> (Inr (), create_task_handle w))"
  shows "(\<forall>e u. f body (user w) = (Inl e, u)
            \<longrightarrow> fst H = Inl e \<and> tasks (snd H) = tasks w \<and> user (snd H) = u)
       \<and> (\<forall>u. f body (user w) = (Inr (), u)
            \<longrightarrow> fst H = Inr () \<and> tasks (snd H) = Suc (tasks w) \<and> user (snd H) = u)"
  unfolding assms by (simp add: await_handler_def debug_def create_task_handle_def)

text \<open>
  C4, as the code has it. The next receive cycle is scheduled exactly when the cycle
  raised nothing. When the handler recorded for the message's topic raises, \<open>handle\<close>
  raises the same exception, keeps the state the handler left and creates no task; when
  that handler returns, \<open>handle\<close> returns and one more task was created; a topic that is
  none of the five runs no handler and one more task was created. In every case: if
  \<open>handle\<close> returns, one more task was created; if it raises, none was.
\<close>

theorem rearm_iff_no_raise:
  "(fst (handle (Inr [topic, body, seq]) w) = Inr ()
      \<longrightarrow> tasks (snd (handle (Inr [topic, body, seq]) w)) = Suc (tasks w))
   \<and> (isl (fst (handle (Inr [topic, body, seq]) w))
      \<longrightarrow> tasks (snd (handle (Inr [topic, body, seq]) w)) = tasks w)
   \<and> ((topic, Obj f) \<in> {(ascii ''hashblock'', hashblock_handler w),
                          (ascii ''hashtx'', hashtx_handler w),
                          (ascii ''rawblock'', rawblock_handler w),
                          (ascii ''rawtx'', rawtx_handler w),
                          (ascii ''sequence'', sequence_handler w)}
      \<longrightarrow> (\<forall>e u. f body (user w) = (Inl e, u)
              \<longrightarrow> fst (handle (Inr [topic, body, seq]) w) = Inl e
                \<and> tasks (snd (handle (Inr [topic, body, seq]) w)) = tasks w
                \<and> user (snd (handle (Inr [topic, body, seq]) w)) = u)
        \<and> (\<forall>u. f body (user w) = (Inr (), u)
              \<longrightarrow> fst (handle (Inr [topic, body, seq]) w) = Inr ()
                \<and> tasks (snd (handle (Inr [topic, body, seq]) w)) = Suc (tasks w)
                \<and> user (snd (handle (Inr [topic, body, seq]) w)) = u))
   \<and> (topic \<notin> {ascii ''hashblock'', ascii ''hashtx'', ascii ''rawblock'', ascii ''rawtx'',
                  ascii ''sequence''}
      \<longrightarrow> fst (handle (Inr [topic, body, seq]) w) = Inr ()
        \<and> tasks (snd (handle (Inr [topic, body, seq]) w)) = Suc (tasks w)
        \<and> user (snd (handle (Inr [topic, body, seq]) w)) = user w)"
proof -
  obtain s where s: "sequence_of seq = Inr s"
    using sequence_of_total by blast
  let ?H = "handle (Inr [topic, body, seq]) w"
  have 12: "(fst ?H = Inr () \<longrightarrow> tasks (snd ?H) = Suc (tasks w))
          \<and> (isl (fst ?H) \<longrightarrow> tasks (snd ?H) = tasks w)"
    unfolding handle_def
    apply (simp only: s sum.case list.case)
    apply (rule rearm_after_dispatch)
    apply (simp add: tasks_await_handler)
    done
  have 3: "(\<forall>e u. f body (user w) = (Inl e, u)
              \<longrightarrow> fst ?H = Inl e \<and> tasks (snd ?H) = tasks w \<and> user (snd ?H) = u)
        \<and> (\<forall>u. f body (user w) = (Inr (), u)
              \<longrightarrow> fst ?H = Inr () \<and> tasks (snd ?H) = Suc (tasks w) \<and> user (snd ?H) = u)"
    if m: "(topic, Obj f) \<in> {(ascii ''hashblock'', hashblock_handler w),
                          (ascii ''hashtx'', hashtx_handler w),
                          (ascii ''rawblock'', rawblock_handler w),
                          (ascii ''rawtx'', rawtx_handler w),
                          (ascii ''sequence'', sequence_handler w)}"
  proof -
    from m consider
        (hb) "topic = ascii ''hashblock''" "hashblock_handler w = Obj f"
      | (ht) "topic = ascii ''hashtx''" "hashtx_handler w = Obj f"
      | (rb) "topic = ascii ''rawblock''" "rawblock_handler w = Obj f"
      | (rt) "topic = ascii ''rawtx''" "rawtx_handler w = Obj f"
      | (sq) "topic = ascii ''sequence''" "sequence_handler w = Obj f"
      by auto
    then show ?thesis
    proof cases
      case hb
      show ?thesis unfolding hb(1)
        by (rule await_obj_outcome [OF hb(2) handle_topic(1) [OF s]])
    next
      case ht
      show ?thesis unfolding ht(1)
        by (rule await_obj_outcome [OF ht(2) handle_topic(2) [OF s]])
    next
      case rb
      show ?thesis unfolding rb(1)
        by (rule await_obj_outcome [OF rb(2) handle_topic(3) [OF s]])
    next
      case rt
      show ?thesis unfolding rt(1)
        by (rule await_obj_outcome [OF rt(2) handle_topic(4) [OF s]])
    next
      case sq
      show ?thesis unfolding sq(1)
        by (rule await_obj_outcome [OF sq(2) handle_topic(5) [OF s]])
    qed
  qed
  have 4: "fst ?H = Inr () \<and> tasks (snd ?H) = Suc (tasks w) \<and> user (snd ?H) = user w"
    if "topic \<notin> {ascii ''hashblock'', ascii ''hashtx'', ascii ''rawblock'', ascii ''rawtx'',
                  ascii ''sequence''}"
  proof -
    from that have "topic \<noteq> ascii ''hashblock''" "topic \<noteq> ascii ''hashtx''"
      "topic \<noteq> ascii ''rawblock''" "topic \<noteq> ascii ''rawtx''" "topic \<noteq> ascii ''sequence''"
      by blast+
    then show ?thesis
      unfolding handle_def by (simp add: s create_task_handle_def)
  qed
  from 12 3 4 show ?thesis by blast
qed

text \<open>
  C4, as the claim has it, fails: a \<open>rawtx\<close> handler that raises makes \<open>handle\<close> raise the
  same exception, and the number of scheduled receive cycles stays what it was.
\<close>

theorem handler_failure_counterexample:
  "fst (handle (Inr [ascii ''rawtx'', [1, 2], [1, 0, 0, 0]])
          (ZMQHandler ''localhost'' 28332 None None None
             (Some (\<lambda>b u. (Inl (ValueError ''boom''), Suc u))) None (0 :: nat)))
     = Inl (ValueError ''boom'')
   \<and> tasks (snd (handle (Inr [ascii ''rawtx'', [1, 2], [1, 0, 0, 0]])
          (ZMQHandler ''localhost'' 28332 None None None
             (Some (\<lambda>b u. (Inl (ValueError ''boom''), Suc u))) None (0 :: nat))))
     = tasks (ZMQHandler ''localhost'' 28332 None None None
             (Some (\<lambda>b u. (Inl (ValueError ''boom''), Suc u))) None (0 :: nat))"
  by (simp add: handle_def sequence_of_def struct_unpack_I_def ascii_def ZMQHandler_def
      await_handler_def debug_def arg_value_def Let_def)

text \<open>An unknown topic, on a handler whose only handler would raise.\<close>

theorem unknown_topic_ignored_witness:
  "ascii ''rawtx2'' \<notin> {ascii ''hashblock'', ascii ''hashtx'', ascii ''rawblock'', ascii ''rawtx'',
                        ascii ''sequence''}
   \<and> handle (Inr [ascii ''rawtx2'', [1, 2], [1, 0, 0, 0]])
            (ZMQHandler ''localhost'' 28332 None None None
               (Some (\<lambda>b u. (Inl (ValueError ''boom''), Suc u))) None (0 :: nat))
       = (Inr (), (ZMQHandler ''localhost'' 28332 None None None
               (Some (\<lambda>b u. (Inl (ValueError ''boom''), Suc u))) None (0 :: nat))
                  \<lparr>tasks := Suc (tasks (ZMQHandler ''localhost'' 28332 None None None
               (Some (\<lambda>b u. (Inl (ValueError ''boom''), Suc u))) None (0 :: nat)))\<rparr>)"
proof -
  have h: "ascii ''rawtx2'' \<notin> {ascii ''hashblock'', ascii ''hashtx'', ascii ''rawblock'',
             ascii ''rawtx'', ascii ''sequence''}"
    by (simp add: ascii_def)
  from h unknown_topic_ignored [OF h] show ?thesis
    by blast
qed

text \<open>A handler constructed for \<open>rawblock\<close> and \<open>rawtx\<close> only.\<close>

theorem missing_handler_raises_witness:
  "fst (handle (Inr [ascii ''hashblock'', [1, 2], []])
          (ZMQHandler ''localhost'' 28332 None None
             (Some (\<lambda>b u. (Inr (), Suc u))) (Some (\<lambda>b u. (Inr (), Suc u))) None (0 :: nat)))
     = Inl (AttributeError ''hashblock_handler'')
   \<and> fst (handle (Inr [ascii ''hashtx'', [1, 2], []])
          (ZMQHandler ''localhost'' 28332 None None
             (Some (\<lambda>b u. (Inr (), Suc u))) (Some (\<lambda>b u. (Inr (), Suc u))) None (0 :: nat)))
     = Inl (TypeError ''NoneType object is not callable'')
   \<and> fst (handle (Inr [ascii ''sequence'', [1, 2], []])
          (ZMQHandler ''localhost'' 28332 None None
             (Some (\<lambda>b u. (Inr (), Suc u))) (Some (\<lambda>b u. (Inr (), Suc u))) None (0 :: nat)))
     = Inl (TypeError ''NoneType object is not callable'')"
  using missing_handler_raises [OF refl, where hashblock = None and hashtx = None
      and sequence = None and body = "[1, 2]" and seq = "[]" and host = "''localhost''"
      and port = 28332 and rawblock = "Some (\<lambda>b u. (Inr (), Suc u))"
      and rawtx = "Some (\<lambda>b u. (Inr (), Suc u))" and ?u0.0 = "0 :: nat"]
  by blast

text \<open>One cycle with a handler that returns, one with a handler that raises.\<close>

theorem rearm_iff_no_raise_witness:
  "fst (handle (Inr [ascii ''rawtx'', [1, 2], [1, 0, 0, 0]])
          (ZMQHandler ''localhost'' 28332 None None None
             (Some (\<lambda>b u. (Inr (), Suc u))) None (0 :: nat))) = Inr ()
   \<and> tasks (snd (handle (Inr [ascii ''rawtx'', [1, 2], [1, 0, 0, 0]])
          (ZMQHandler ''localhost'' 28332 None None None
             (Some (\<lambda>b u. (Inr (), Suc u))) None (0 :: nat)))) = 1
   \<and> fst (handle (Inr [ascii ''rawtx'', [1, 2], [1, 0, 0, 0]])
          (ZMQHandler ''localhost'' 28332 None None None
             (Some (\<lambda>b u. (Inl (ValueError ''boom''), Suc u))) None (0 :: nat)))
       = Inl (ValueError ''boom'')
   \<and> tasks (snd (handle (Inr [ascii ''rawtx'', [1, 2], [1, 0, 0, 0]])
          (ZMQHandler ''localhost'' 28332 None None None
             (Some (\<lambda>b u. (Inl (ValueError ''boom''), Suc u))) None (0 :: nat)))) = 0
   \<and> user (snd (handle (Inr [ascii ''rawtx'', [1, 2], [1, 0, 0, 0]])
          (ZMQHandler ''localhost'' 28332 None None None
             (Some (\<lambda>b u. (Inl (ValueError ''boom''), Suc u))) None (0 :: nat)))) = 1"
proof -
  let ?W = "\<lambda>f. ZMQHandler ''localhost'' 28332 None None None (Some f) None (0 :: nat)"
  let ?ok = "\<lambda>(b :: bytes) (u :: nat). (Inr () :: unit result, Suc u)"
  let ?bad = "\<lambda>(b :: bytes) (u :: nat). (Inl (ValueError ''boom'') :: unit result, Suc u)"
  have h: "rawtx_handler (?W f) = Obj f" for f
    by (simp add: ZMQHandler_handlers)
  have u0: "user (?W f) = 0" and t0: "tasks (?W f) = 0" for f
    by (simp_all add: ZMQHandler_def)
  have m: "(ascii ''rawtx'', Obj f) \<in> {(ascii ''hashblock'', hashblock_handler (?W f)),
                          (ascii ''hashtx'', hashtx_handler (?W f)),
                          (ascii ''rawblock'', rawblock_handler (?W f)),
                          (ascii ''rawtx'', rawtx_handler (?W f)),
                          (ascii ''sequence'', sequence_handler (?W f))}" for f
    by (simp add: h)
  have ok: "fst (handle (Inr [ascii ''rawtx'', [1, 2], [1, 0, 0, 0]]) (?W ?ok)) = Inr ()
      \<and> tasks (snd (handle (Inr [ascii ''rawtx'', [1, 2], [1, 0, 0, 0]]) (?W ?ok))) = 1"
    using mp [OF rearm_iff_no_raise [where topic = "ascii ''rawtx''" and f = ?ok and w = "?W ?ok"
          and body = "[1, 2]" and seq = "[1, 0, 0, 0]", THEN conjunct2, THEN conjunct2,
          THEN conjunct1] m [of ?ok]]
    by (simp add: u0 t0)
  have bad: "fst (handle (Inr [ascii ''rawtx'', [1, 2], [1, 0, 0, 0]]) (?W ?bad))
        = Inl (ValueError ''boom'')
      \<and> tasks (snd (handle (Inr [ascii ''rawtx'', [1, 2], [1, 0, 0, 0]]) (?W ?bad))) = 0
      \<and> user (snd (handle (Inr [ascii ''rawtx'', [1, 2], [1, 0, 0, 0]]) (?W ?bad))) = 1"
    using mp [OF rearm_iff_no_raise [where topic = "ascii ''rawtx''" and f = ?bad and w = "?W ?bad"
          and body = "[1, 2]" and seq = "[1, 0, 0, 0]", THEN conjunct2, THEN conjunct2,
          THEN conjunct1] m [of ?bad]]
    by (simp add: u0 t0)
  from ok bad show ?thesis by simp
qed

section \<open>The transport session\<close>

lemma init_session_idem: "session w \<noteq> None \<Longrightarrow> init_session w = w"
  by (simp add: init_session_def)

lemma init_session_first:
  "session w = None \<Longrightarrow>
     init_session w = w\<lparr>session := Some \<lparr>session_timeout = timeout w, closed = False\<rparr>,
                        contexts := Suc (contexts w)\<rparr>"
  by (simp add: init_session_def)

lemma init_session_pow:
  assumes "session w = None" and "0 < n"
  shows "(init_session ^^ n) w =
           w\<lparr>session := Some \<lparr>session_timeout = timeout w, closed = False\<rparr>,
             contexts := Suc (contexts w)\<rparr>"
  using assms(2)
proof (induction n)
  case 0
  then show ?case by simp
next
  case (Suc n)
  show ?case
  proof (cases "n = 0")
    case True
    then show ?thesis using assms(1) by (simp add: init_session_first)
  next
    case False
    with Suc.IH have "(init_session ^^ n) w =
        w\<lparr>session := Some \<lparr>session_timeout = timeout w, closed = False\<rparr>,
          contexts := Suc (contexts w)\<rparr>"
      by simp
    then show ?thesis by (simp add: init_session_idem)
  qed
qed

text \<open>
  C9. Session initialization is lazy and idempotent. A constructed handler has no session
  and no client session was constructed; after any positive number of calls of
  \<open>_init_session\<close> exactly one was constructed, it carries the total timeout of 1200
  seconds, the state is the one the first call left, and a further call changes nothing.
\<close>

theorem init_session_once:
  assumes "w = RPCHandler usr password host port n0 rnd running" and "0 < n"
  shows "contexts ((init_session ^^ n) w) = 1
       \<and> session ((init_session ^^ n) w)
           = Some \<lparr>session_timeout = \<lparr>total = 1200\<rparr>, closed = False\<rparr>
       \<and> (init_session ^^ n) w = init_session w
       \<and> init_session ((init_session ^^ n) w) = (init_session ^^ n) w
       \<and> session w = None \<and> contexts w = 0"
proof -
  have s: "session w = None" and c: "contexts w = 0" and t: "timeout w = \<lparr>total = 1200\<rparr>"
    unfolding assms(1) by (simp_all add: RPCHandler_def)
  have p: "(init_session ^^ n) w =
           w\<lparr>session := Some \<lparr>session_timeout = timeout w, closed = False\<rparr>,
             contexts := Suc (contexts w)\<rparr>"
    using init_session_pow [OF s assms(2)] .
  have 1: "contexts ((init_session ^^ n) w) = 1" by (simp add: p c)
  have 2: "session ((init_session ^^ n) w)
           = Some \<lparr>session_timeout = \<lparr>total = 1200\<rparr>, closed = False\<rparr>"
    by (simp add: p t)
  have 3: "(init_session ^^ n) w = init_session w"
    by (simp add: p init_session_first [OF s])
  have 4: "init_session ((init_session ^^ n) w) = (init_session ^^ n) w"
    by (rule init_session_idem) (simp add: 2)
  from 1 2 3 4 s c show ?thesis by blast
qed

text \<open>
  Three calls on a fresh handler.
\<close>

theorem init_session_once_witness:
  "(0 :: nat) < 3
   \<and> contexts ((init_session ^^ 3) (RPCHandler ''user'' ''secret'' ''127.0.0.1'' 8332 () (\<lambda>k. k) True)) = 1
   \<and> session ((init_session ^^ 3) (RPCHandler ''user'' ''secret'' ''127.0.0.1'' 8332 () (\<lambda>k. k) True))
        = Some \<lparr>session_timeout = \<lparr>total = 1200\<rparr>, closed = False\<rparr>"
proof -
  have h: "(0 :: nat) < 3" by simp
  from h init_session_once [OF refl h, where usr = "''user''" and password = "''secret''"
      and host = "''127.0.0.1''" and port = 8332 and ?n0.0 = "()" and rnd = "\<lambda>k. k"
      and running = True]
  show ?thesis by blast
qed

text \<open>
  C5. Teardown before any use: \<open>__del__\<close> on a handler whose session is still \<open>None\<close>
  raises \<open>AttributeError\<close> when it reads \<open>self.session.closed\<close>.
\<close>

theorem del_before_session_raises:
  "fst (del (RPCHandler ''user'' ''secret'' ''127.0.0.1'' 8332 () (\<lambda>k. k) True))
     = Inl (AttributeError ''closed'')"
  by (simp add: del_def RPCHandler_def)

section \<open>Subscriptions\<close>

text \<open>
  C8. At construction a topic filter is applied for a topic exactly when a handler was
  supplied for it, no other filter is applied, none twice, and each supplied handler is
  recorded in its attribute. With handlers for \<open>rawblock\<close> and \<open>rawtx\<close> only, the
  filters are exactly these two.
\<close>

theorem subscriptions_iff_handlers:
  assumes "z = ZMQHandler host port hashblock hashtx rawblock rawtx sequence u0"
  shows "(''hashblock'' \<in> set (subscriptions (zmqSubSocket z)) \<longleftrightarrow> hashblock \<noteq> None)
       \<and> (''hashtx'' \<in> set (subscriptions (zmqSubSocket z)) \<longleftrightarrow> hashtx \<noteq> None)
       \<and> (''rawblock'' \<in> set (subscriptions (zmqSubSocket z)) \<longleftrightarrow> rawblock \<noteq> None)
       \<and> (''rawtx'' \<in> set (subscriptions (zmqSubSocket z)) \<longleftrightarrow> rawtx \<noteq> None)
       \<and> (''sequence'' \<in> set (subscriptions (zmqSubSocket z)) \<longleftrightarrow> sequence \<noteq> None)
       \<and> set (subscriptions (zmqSubSocket z))
            \<subseteq> {''hashblock'', ''hashtx'', ''rawblock'', ''rawtx'', ''sequence''}
       \<and> distinct (subscriptions (zmqSubSocket z))
       \<and> length (subscriptions (zmqSubSocket z))
            = length (filter (\<lambda>h. h \<noteq> None) [hashblock, hashtx, rawblock, rawtx, sequence])
       \<and> (\<forall>f. hashblock = Some f \<longrightarrow> hashblock_handler z = Obj f)
       \<and> (\<forall>f. hashtx = Some f \<longrightarrow> hashtx_handler z = Obj f)
       \<and> (\<forall>f. rawblock = Some f \<longrightarrow> rawblock_handler z = Obj f)
       \<and> (\<forall>f. rawtx = Some f \<longrightarrow> rawtx_handler z = Obj f)
       \<and> (\<forall>f. sequence = Some f \<longrightarrow> sequence_handler z = Obj f)
       \<and> (hashblock = None \<and> hashtx = None \<and> sequence = None \<and> rawblock \<noteq> None \<and> rawtx \<noteq> None
            \<longrightarrow> subscriptions (zmqSubSocket z) = [''rawblock'', ''rawtx''])"
proof -
  note subs = ZMQHandler_subscriptions [of host port hashblock hashtx rawblock rawtx sequence u0]
  have 1: "''hashblock'' \<in> set (subscriptions (zmqSubSocket z)) \<longleftrightarrow> hashblock \<noteq> None"
    unfolding assms subs by simp
  have 2: "''hashtx'' \<in> set (subscriptions (zmqSubSocket z)) \<longleftrightarrow> hashtx \<noteq> None"
    unfolding assms subs by simp
  have 3: "''rawblock'' \<in> set (subscriptions (zmqSubSocket z)) \<longleftrightarrow> rawblock \<noteq> None"
    unfolding assms subs by simp
  have 4: "''rawtx'' \<in> set (subscriptions (zmqSubSocket z)) \<longleftrightarrow> rawtx \<noteq> None"
    unfolding assms subs by simp
  have 5: "''sequence'' \<in> set (subscriptions (zmqSubSocket z)) \<longleftrightarrow> sequence \<noteq> None"
    unfolding assms subs by simp
  have 6: "set (subscriptions (zmqSubSocket z))
            \<subseteq> {''hashblock'', ''hashtx'', ''rawblock'', ''rawtx'', ''sequence''}"
    unfolding assms subs by simp
  have 7: "distinct (subscriptions (zmqSubSocket z))"
    unfolding assms subs by simp
  have 8: "length (subscriptions (zmqSubSocket z))
            = length (filter (\<lambda>h. h \<noteq> None) [hashblock, hashtx, rawblock, rawtx, sequence])"
    unfolding assms subs by simp
  have 9: "\<forall>f. hashblock = Some f \<longrightarrow> hashblock_handler z = Obj f"
    "\<forall>f. hashtx = Some f \<longrightarrow> hashtx_handler z = Obj f"
    "\<forall>f. rawblock = Some f \<longrightarrow> rawblock_handler z = Obj f"
    "\<forall>f. rawtx = Some f \<longrightarrow> rawtx_handler z = Obj f"
    "\<forall>f. sequence = Some f \<longrightarrow> sequence_handler z = Obj f"
    unfolding assms by (simp_all add: ZMQHandler_handlers)
  have 10: "hashblock = None \<and> hashtx = None \<and> sequence = None \<and> rawblock \<noteq> None \<and> rawtx \<noteq> None
            \<longrightarrow> subscriptions (zmqSubSocket z) = [''rawblock'', ''rawtx'']"
    unfolding assms subs by simp
  from 1 2 3 4 5 6 7 8 9 10 show ?thesis by blast
qed

text \<open>
  Handlers for \<open>rawblock\<close> and \<open>rawtx\<close> only.
\<close>

theorem subscriptions_iff_handlers_witness:
  "subscriptions (zmqSubSocket (ZMQHandler ''localhost'' 28332 None None
       (Some (\<lambda>b u. (Inr (), Suc u))) (Some (\<lambda>b u. (Inr (), u + 2))) None (0 :: nat)))
     = [''rawblock'', ''rawtx'']
   \<and> length (subscriptions (zmqSubSocket (ZMQHandler ''localhost'' 28332 None None
       (Some (\<lambda>b u. (Inr (), Suc u))) (Some (\<lambda>b u. (Inr (), u + 2))) None (0 :: nat)))) = 2
   \<and> rawblock_handler (ZMQHandler ''localhost'' 28332 None None
       (Some (\<lambda>b u. (Inr (), Suc u))) (Some (\<lambda>b u. (Inr (), u + 2))) None (0 :: nat))
     = Obj (\<lambda>b u. (Inr (), Suc u))
   \<and> rawtx_handler (ZMQHandler ''localhost'' 28332 None None
       (Some (\<lambda>b u. (Inr (), Suc u))) (Some (\<lambda>b u. (Inr (), u + 2))) None (0 :: nat))
     = Obj (\<lambda>b u. (Inr (), u + 2))"
  using subscriptions_iff_handlers [OF refl, where hashblock = None and hashtx = None
      and sequence = None and host = "''localhost''"
      and port = 28332 and rawblock = "Some (\<lambda>b u. (Inr (), Suc u))"
      and rawtx = "Some (\<lambda>b u. (Inr (), u + 2))" and ?u0.0 = "0 :: nat"]
  by simp

section \<open>The batch dispatcher\<close>

subsection \<open>Chunks\<close>

lemma concat_slices:
  "concat (map (\<lambda>j. take k (drop (j * k) xs)) [0..<m]) = take (m * k) xs"
proof (induction m)
  case 0
  then show ?case by simp
next
  case (Suc m)
  have "take (m * k + k) xs = take (m * k) xs @ take k (drop (m * k) xs)"
    by (rule take_add)
  with Suc show ?case by (simp add: add.commute)
qed

lemma ceil_mult: "0 < k \<Longrightarrow> n \<le> ((n + k - 1) div k) * (k :: nat)"
proof -
  assume k: "0 < k"
  have "n + k - 1 = ((n + k - 1) div k) * k + (n + k - 1) mod k"
    by simp
  moreover have "(n + k - 1) mod k \<le> k - 1"
    using k by (metis Suc_pred' less_Suc_eq_le mod_less_divisor)
  ultimately show ?thesis using k by linarith
qed

lemma slice_start_less: "0 < k \<Longrightarrow> j < (n + k - 1) div k \<Longrightarrow> j * k < (n :: nat)"
proof -
  assume k: "0 < k" and j: "j < (n + k - 1) div k"
  from j have "Suc j \<le> (n + k - 1) div k" by simp
  then have "Suc j * k \<le> ((n + k - 1) div k) * k" by (rule mult_le_mono1)
  also have "\<dots> \<le> n + k - 1" by simp
  finally show ?thesis using k by simp
qed

lemma split_into_chunks_eq:
  "split_into_chunks xs c =
     map (\<lambda>j. take (nat (max c 1)) (drop (j * nat (max c 1)) xs))
       [0 ..< (length xs + nat (max c 1) - 1) div nat (max c 1)]"
  by (simp add: split_into_chunks_def py_range_def Let_def comp_def)

lemma concat_split_into_chunks: "concat (split_into_chunks xs c) = xs"
proof -
  have "0 < nat (max c 1)" by simp
  from ceil_mult [OF this, of "length xs"] show ?thesis
    unfolding split_into_chunks_eq concat_slices by simp
qed

lemma length_split_into_chunks:
  assumes "ys \<in> set (split_into_chunks xs c)"
  shows "0 < length ys \<and> length ys \<le> nat (max c 1)"
proof -
  have k: "0 < nat (max c 1)" by simp
  from assms obtain j where j: "j < (length xs + nat (max c 1) - 1) div nat (max c 1)"
    and ys: "ys = take (nat (max c 1)) (drop (j * nat (max c 1)) xs)"
    unfolding split_into_chunks_eq by auto
  from slice_start_less [OF k j] have "j * nat (max c 1) < length xs" .
  with k show ?thesis unfolding ys by simp
qed

lemma split_into_chunks_250:
  "length xs = 250 \<Longrightarrow> map length (split_into_chunks xs CHUNK_SIZE) = [100, 100, 50]"
  by (simp add: split_into_chunks_def CHUNK_SIZE_def py_range_def upt_conv_Cons)

lemma split_into_chunks_nonempty: "xs \<noteq> [] \<Longrightarrow> split_into_chunks xs c \<noteq> []"
  using concat_split_into_chunks [of xs c] by auto

lemma flatten_nonempty: "res \<noteq> [] \<Longrightarrow> flatten res = Inr (concat res)"
proof -
  have "foldl (@) x xs = x @ concat xs" for x :: "'a list" and xs
    by (induction xs arbitrary: x) simp_all
  then show "res \<noteq> [] \<Longrightarrow> flatten res = Inr (concat res)"
    by (cases res) (simp_all add: flatten_def)
qed

subsection \<open>Building the requests\<close>

lemma randint_fields:
  "url (snd (randint w)) = url w" "session (snd (randint w)) = session w"
  "wire (snd (randint w)) = wire w" "net (snd (randint w)) = net w"
  "contexts (snd (randint w)) = contexts w"
  by (simp_all add: randint_def)

lemma new_rpcs_requests:
  "map (\<lambda>r. (rpc_method r, params r)) (fst (new_rpcs c w)) = c"
  by (induction c arbitrary: w) (auto simp: split_beta RPC_def)

lemma new_rpcs_fields:
  "url (snd (new_rpcs c w)) = url w \<and> session (snd (new_rpcs c w)) = session w
   \<and> wire (snd (new_rpcs c w)) = wire w \<and> net (snd (new_rpcs c w)) = net w
   \<and> contexts (snd (new_rpcs c w)) = contexts w"
  by (induction c arbitrary: w) (auto simp: split_beta randint_def)

lemma new_batches_requests:
  "map (\<lambda>b. map (\<lambda>r. (rpc_method r, params r)) (rpc_list b)) (fst (new_batches cs w)) = cs"
  by (induction cs arbitrary: w) (auto simp: split_beta RPCBatch_def new_rpcs_requests)

lemma new_batches_fields:
  "url (snd (new_batches cs w)) = url w \<and> session (snd (new_batches cs w)) = session w
   \<and> wire (snd (new_batches cs w)) = wire w \<and> net (snd (new_batches cs w)) = net w
   \<and> contexts (snd (new_batches cs w)) = contexts w"
  by (induction cs arbitrary: w) (auto simp: split_beta new_rpcs_fields)

lemma new_batches_length: "length (fst (new_batches cs w)) = length cs"
  by (induction cs arbitrary: w) (auto simp: split_beta)

lemma init_session_fields:
  "url (init_session w) = url w" "wire (init_session w) = wire w" "net (init_session w) = net w"
  "session (init_session w) \<noteq> None"
  by (simp_all add: init_session_def)

subsection \<open>One exchange\<close>

lemma execute_None: "execute post p u None w = (Inl (AttributeError ''post''), w)"
  by (simp add: execute_def)

lemma execute_Some:
  "execute post p u (Some s) w =
     (fst (post u s p (net w)),
      w\<lparr>wire := wire w @ [Posted u p,
                            case fst (post u s p (net w)) of Inl e \<Rightarrow> Raised e | Inr x \<Rightarrow> Returned],
        net := snd (post u s p (net w))\<rparr>)"
  by (simp add: execute_def Let_def split_beta)

subsection \<open>The loop over the chunks\<close>

lemma execute_fields:
  "url (snd (execute post p u sess w)) = url w"
  "session (snd (execute post p u sess w)) = session w"
  "contexts (snd (execute post p u sess w)) = contexts w"
  by (cases sess; simp add: execute_None execute_Some)+

lemma dispatch_fields:
  "url (snd (dispatch post bs res w)) = url w \<and> session (snd (dispatch post bs res w)) = session w
   \<and> contexts (snd (dispatch post bs res w)) = contexts w"
proof (induction bs arbitrary: res w)
  case Nil
  then show ?case by simp
next
  case (Cons b bs)
  show ?case
  proof (cases "execute post (assemble_batch b) (url w) (session w) w")
    case (Pair r w1)
    then have f: "url w1 = url w" "session w1 = session w" "contexts w1 = contexts w"
      using execute_fields [of post "assemble_batch b" "url w" "session w" w] by simp_all
    show ?thesis
    proof (cases r)
      case (Inl e)
      with Pair f show ?thesis by simp
    next
      case (Inr x)
      with Pair f Cons.IH [of "res @ [x]" w1] show ?thesis by simp
    qed
  qed
qed

lemma dispatch_trace:
  "\<exists>outs. length outs \<le> length bs
      \<and> wire (snd (dispatch post bs res w))
          = wire w @ concat (map2 (\<lambda>b out. [Posted (url w) (assemble_batch b), out]) bs outs)
      \<and> set (butlast outs) \<subseteq> {Returned}
      \<and> (\<not> isl (fst (dispatch post bs res w)) \<longrightarrow> outs = replicate (length bs) Returned)"
proof (induction bs arbitrary: res w)
  case Nil
  then show ?case by simp
next
  case (Cons b bs)
  show ?case
  proof (cases "session w")
    case None
    then have "dispatch post (b # bs) res w = (Inl (AttributeError ''post''), w)"
      by (simp add: execute_None)
    then show ?thesis by (intro exI [of _ "[]"]) simp
  next
    case (Some s)
    let ?r = "fst (post (url w) s (assemble_batch b) (net w))"
    let ?w1 = "snd (execute post (assemble_batch b) (url w) (Some s) w)"
    have ex: "execute post (assemble_batch b) (url w) (session w) w = (?r, ?w1)"
      by (simp add: Some execute_Some)
    have w1: "wire ?w1 = wire w @ [Posted (url w) (assemble_batch b),
                case ?r of Inl e \<Rightarrow> Raised e | Inr x \<Rightarrow> Returned]"
      and u1: "url ?w1 = url w"
      by (simp_all add: execute_Some)
    show ?thesis
    proof (cases ?r)
      case (Inl e)
      with ex have "dispatch post (b # bs) res w = (Inl e, ?w1)" by simp
      with w1 Inl show ?thesis by (intro exI [of _ "[Raised e]"]) simp
    next
      case (Inr x)
      with ex have d: "dispatch post (b # bs) res w = dispatch post bs (res @ [x]) ?w1" by simp
      from Cons.IH [of "res @ [x]" ?w1] obtain outs where o: "length outs \<le> length bs"
        "wire (snd (dispatch post bs (res @ [x]) ?w1))
          = wire ?w1 @ concat (map2 (\<lambda>b out. [Posted (url ?w1) (assemble_batch b), out]) bs outs)"
        "set (butlast outs) \<subseteq> {Returned}"
        "\<not> isl (fst (dispatch post bs (res @ [x]) ?w1)) \<longrightarrow> outs = replicate (length bs) Returned"
        by blast
      show ?thesis
        unfolding d using o w1 Inr u1
        by (intro exI [of _ "Returned # outs"]) auto
    qed
  qed
qed

lemma dispatch_good:
  assumes "session w \<noteq> None"
    and "\<forall>b \<in> set bs. \<forall>s n. \<exists>rs. fst (post (url w) s (assemble_batch b) n) = Inr rs
                                    \<and> list_all2 R (rpc_list b) rs"
  shows "\<exists>rss. fst (dispatch post bs res w) = Inr (res @ rss)
            \<and> list_all2 (\<lambda>b rs. list_all2 R (rpc_list b) rs) bs rss"
  using assms
proof (induction bs arbitrary: res w)
  case Nil
  then show ?case by simp
next
  case (Cons b bs)
  from Cons.prems(1) obtain s where s: "session w = Some s" by blast
  from Cons.prems(2) obtain rs where rs: "fst (post (url w) s (assemble_batch b) (net w)) = Inr rs"
    "list_all2 R (rpc_list b) rs"
    by (meson list.set_intros(1))
  let ?w1 = "snd (execute post (assemble_batch b) (url w) (Some s) w)"
  have ex: "execute post (assemble_batch b) (url w) (session w) w = (Inr rs, ?w1)"
    by (simp add: s execute_Some rs)
  have f: "url ?w1 = url w" "session ?w1 = session w"
    by (simp_all add: execute_fields)
  have "session ?w1 \<noteq> None" using f Cons.prems(1) by simp
  moreover have "\<forall>b \<in> set bs. \<forall>s n. \<exists>rs. fst (post (url ?w1) s (assemble_batch b) n) = Inr rs
                                    \<and> list_all2 R (rpc_list b) rs"
    using Cons.prems(2) f by simp
  ultimately obtain rss where rss: "fst (dispatch post bs (res @ [rs]) ?w1) = Inr ((res @ [rs]) @ rss)"
    "list_all2 (\<lambda>b rs. list_all2 R (rpc_list b) rs) bs rss"
    using Cons.IH [of ?w1 "res @ [rs]"] by blast
  have "dispatch post (b # bs) res w = dispatch post bs (res @ [rs]) ?w1"
    using ex by simp
  with rss rs(2) show ?case
    by (intro exI [of _ "rs # rss"]) simp
qed

lemma list_all2_concat:
  "list_all2 (\<lambda>xs ys. list_all2 R (f xs) ys) xss yss \<Longrightarrow>
     list_all2 R (concat (map f xss)) (concat yss)"
  by (induction xss yss rule: list_all2_induct) (simp_all add: list_all2_appendI)

subsection \<open>The batch\<close>

lemma execute_rpc_batch_Nil: "execute_rpc_batch post [] w = (Some [], w)"
  by (simp add: execute_rpc_batch_def)

lemma execute_rpc_batch_Cons:
  assumes "method_list \<noteq> []"
  shows "execute_rpc_batch post method_list w =
     (case dispatch post (fst (new_batches (split_into_chunks method_list CHUNK_SIZE) (init_session w))) []
             (snd (new_batches (split_into_chunks method_list CHUNK_SIZE) (init_session w))) of
        (Inl e, w') \<Rightarrow> (None, w')
      | (Inr res, w') \<Rightarrow> if res \<noteq> [] then (Some (concat res), w') else (Some [], w'))"
  using assms
  by (auto simp: execute_rpc_batch_def Let_def split_beta flatten_nonempty
      split: prod.splits sum.splits)

lemma execute_rpc_batch_good:
  assumes "method_list \<noteq> []"
    and "\<forall>b \<in> set (fst (new_batches (split_into_chunks method_list CHUNK_SIZE) (init_session w))).
             \<forall>s n. \<exists>rs. fst (post (url w) s (assemble_batch b) n) = Inr rs
                         \<and> list_all2 R (rpc_list b) rs"
  shows "\<exists>rpcs rs. fst (execute_rpc_batch post method_list w) = Some rs
             \<and> length rs = length method_list
             \<and> map (\<lambda>r. (rpc_method r, params r)) rpcs = method_list
             \<and> list_all2 R rpcs rs"
proof -
  let ?chunks = "split_into_chunks method_list CHUNK_SIZE"
  let ?bs = "fst (new_batches ?chunks (init_session w))"
  let ?w2 = "snd (new_batches ?chunks (init_session w))"
  have s2: "session ?w2 \<noteq> None" and u2: "url ?w2 = url w"
    by (simp_all add: new_batches_fields init_session_fields)
  from assms(2) u2 have h: "\<forall>b \<in> set ?bs. \<forall>s n. \<exists>rs. fst (post (url ?w2) s (assemble_batch b) n) = Inr rs
                         \<and> list_all2 R (rpc_list b) rs"
    by simp
  from dispatch_good [where w = ?w2 and bs = ?bs and post = post and R = R and res = "[]",
      OF s2 h] obtain rss
    where rss: "fst (dispatch post ?bs [] ?w2) = Inr rss"
      and rel: "list_all2 (\<lambda>b rs. list_all2 R (rpc_list b) rs) ?bs rss"
    by auto
  have res: "fst (execute_rpc_batch post method_list w) = Some (concat rss)"
    using rss by (cases "dispatch post ?bs [] ?w2") (simp add: execute_rpc_batch_Cons [OF assms(1)])
  let ?rpcs = "concat (map rpc_list ?bs)"
  have all: "list_all2 R ?rpcs (concat rss)"
    using rel by (rule list_all2_concat)
  have reqs: "map (\<lambda>r. (rpc_method r, params r)) ?rpcs = method_list"
  proof -
    have "map (\<lambda>r. (rpc_method r, params r)) ?rpcs
            = concat (map (\<lambda>b. map (\<lambda>r. (rpc_method r, params r)) (rpc_list b)) ?bs)"
      by (simp add: map_concat comp_def)
    also have "\<dots> = concat ?chunks"
      by (simp add: new_batches_requests)
    finally show ?thesis by (simp add: concat_split_into_chunks)
  qed
  have len: "length (concat rss) = length method_list"
    using list_all2_lengthD [OF all] reqs by (metis length_map)
  from res len reqs all show ?thesis
    by blast
qed

text \<open>
  C1. Let the transport answer every chunk that is dispatched with one envelope for each
  request, in the chunk's order: the relation \<open>R\<close> says which envelope answers which
  request. Then \<open>_execute_rpc_batch\<close> returns a list of as many envelopes as there are
  input pairs, and the envelope at each position answers the request built from the
  input pair at that position. For the empty list it returns the empty list and leaves
  everything as it was: no session, no exchange.
\<close>

theorem execute_rpc_batch_order:
  assumes "\<forall>b \<in> set (fst (new_batches (split_into_chunks method_list CHUNK_SIZE) (init_session w))).
             \<forall>s n. \<exists>rs. fst (post (url w) s (assemble_batch b) n) = Inr rs
                         \<and> list_all2 R (rpc_list b) rs"
  shows "(\<exists>rpcs rs. fst (execute_rpc_batch post method_list w) = Some rs
             \<and> length rs = length method_list
             \<and> map (\<lambda>r. (rpc_method r, params r)) rpcs = method_list
             \<and> list_all2 R rpcs rs)
       \<and> execute_rpc_batch post [] w = (Some [], w)"
proof (cases "method_list = []")
  case True
  then show ?thesis
    by (simp add: execute_rpc_batch_Nil)
next
  case False
  from execute_rpc_batch_good [where post = post and R = R and w = w and method_list = method_list,
      OF False assms]
  show ?thesis
    by (simp add: execute_rpc_batch_Nil)
qed

text \<open>Two requests against a transport that echoes each request in its envelope.\<close>

theorem execute_rpc_batch_order_witness:
  "\<exists>rpcs rs.
        fst (execute_rpc_batch
               (\<lambda>u s p n. (case p of JArr qs \<Rightarrow> Inr (map (\<lambda>q. [(''result'', q), (''error'', JNull)]) qs)
                                  | _ \<Rightarrow> Inl (ClientError ''not a batch''), Suc n))
               [(''getblockhash'', [JNum 100]), (''getblockhash'', [JNum 101])]
               (RPCHandler ''user'' ''secret'' ''127.0.0.1'' 8332 (0 :: nat) (\<lambda>k. k) True)) = Some rs
        \<and> length rs = length [(''getblockhash'', [JNum 100 :: json]), (''getblockhash'', [JNum 101])]
        \<and> map (\<lambda>r. (rpc_method r, params r)) rpcs
            = [(''getblockhash'', [JNum 100]), (''getblockhash'', [JNum 101])]
        \<and> list_all2 (\<lambda>r e. e = [(''result'', assemble r), (''error'', JNull)]) rpcs rs"
proof -
  have asm: "assemble_batch b = JArr (map assemble (rpc_list b))" for b
    by (simp add: assemble_batch_def assemble_def)
  have h: "\<forall>b \<in> set (fst (new_batches
        (split_into_chunks [(''getblockhash'', [JNum 100]), (''getblockhash'', [JNum 101])] CHUNK_SIZE)
        (init_session (RPCHandler ''user'' ''secret'' ''127.0.0.1'' 8332 (0 :: nat) (\<lambda>k. k) True)))).
      \<forall>s n. \<exists>rs.
        fst ((\<lambda>u s p n. (case p of JArr qs \<Rightarrow> Inr (map (\<lambda>q. [(''result'', q), (''error'', JNull)]) qs)
                                  | _ \<Rightarrow> Inl (ClientError ''not a batch''), Suc n))
               (url (RPCHandler ''user'' ''secret'' ''127.0.0.1'' 8332 (0 :: nat) (\<lambda>k. k) True))
               s (assemble_batch b) n) = Inr rs
        \<and> list_all2 (\<lambda>r e. e = [(''result'', assemble r), (''error'', JNull)]) (rpc_list b) rs"
    by (simp add: asm list_all2_map2 list_all2_same)
  from execute_rpc_batch_order [OF h] show ?thesis
    by blast
qed

lemma split_into_chunks_Nil: "split_into_chunks [] c = []"
  by (simp add: split_into_chunks_def py_range_def)

lemma batch_result_cases:
  "snd (case X of (Inl e, w') \<Rightarrow> (None, w')
        | (Inr res, w') \<Rightarrow> if res \<noteq> [] then (Some (concat res), w') else (Some [], w')) = snd X"
  "fst (case X of (Inl e, w') \<Rightarrow> (None, w')
        | (Inr res, w') \<Rightarrow> if res \<noteq> [] then (Some (concat res), w') else (Some [], w')) \<noteq> None
     \<longleftrightarrow> \<not> isl (fst X)"
  by (cases X; cases "fst X"; simp)+

lemma execute_rpc_batch_trace:
  assumes "bs = fst (new_batches (split_into_chunks method_list CHUNK_SIZE) (init_session w))"
  shows "\<exists>outs. length outs \<le> length bs
      \<and> wire (snd (execute_rpc_batch post method_list w))
          = wire w @ concat (map2 (\<lambda>b out. [Posted (url w) (assemble_batch b), out]) bs outs)
      \<and> set (butlast outs) \<subseteq> {Returned}
      \<and> (fst (execute_rpc_batch post method_list w) \<noteq> None
            \<longrightarrow> outs = replicate (length bs) Returned)"
proof (cases "method_list = []")
  case True
  then have "bs = []" unfolding assms by (simp add: split_into_chunks_Nil)
  with True show ?thesis
    by (intro exI [of _ "[]"]) (simp add: execute_rpc_batch_Nil)
next
  case False
  let ?w2 = "snd (new_batches (split_into_chunks method_list CHUNK_SIZE) (init_session w))"
  have f: "wire ?w2 = wire w" "url ?w2 = url w"
    by (simp_all add: new_batches_fields init_session_fields)
  from dispatch_trace [of bs post "[]" ?w2] show ?thesis
    unfolding execute_rpc_batch_Cons [OF False] batch_result_cases assms f by blast
qed

lemma events_of_returned:
  "Raised e \<notin> set (concat (map2 (\<lambda>b out. [Posted u (f b), out]) bs (replicate n Returned)))"
  by (auto dest: set_zip_rightD)

lemma raised_in_batch:
  assumes "Raised e \<in> set (drop (length (wire w)) (wire (snd (execute_rpc_batch post method_list w))))"
  shows "fst (execute_rpc_batch post method_list w) = None"
proof (rule ccontr)
  assume n: "fst (execute_rpc_batch post method_list w) \<noteq> None"
  from execute_rpc_batch_trace [OF refl, where post = post and method_list = method_list and w = w]
    n obtain outs where
    "wire (snd (execute_rpc_batch post method_list w))
       = wire w @ concat (map2 (\<lambda>b out. [Posted (url w) (assemble_batch b), out])
           (fst (new_batches (split_into_chunks method_list CHUNK_SIZE) (init_session w))) outs)"
    "outs = replicate (length (fst (new_batches (split_into_chunks method_list CHUNK_SIZE)
                (init_session w)))) Returned"
    by blast
  with assms have "Raised e \<in> set (concat (map2 (\<lambda>b out. [Posted (url w) (assemble_batch b), out])
           (fst (new_batches (split_into_chunks method_list CHUNK_SIZE) (init_session w)))
           (replicate (length (fst (new_batches (split_into_chunks method_list CHUNK_SIZE)
                (init_session w)))) Returned)))"
    by (metis append_eq_conv_conj)
  then show False
    using events_of_returned by blast
qed

text \<open>
  C3. The chunks concatenate back to the input, each holds between 1 and 100 requests,
  and 250 requests give chunks of 100, 100 and 50. Each chunk becomes one batch of the
  same requests. On the wire the batches are posted in chunk order, and each exchange has
  returned or raised before the next payload is posted: the trace is a sequence of pairs
  (posted, outcome), every outcome but the last is a return, and when the call yields a
  result every batch was posted and returned.
\<close>

theorem chunks_sequential:
  assumes "bs = fst (new_batches (split_into_chunks method_list CHUNK_SIZE) (init_session w))"
  shows "concat (split_into_chunks method_list CHUNK_SIZE) = method_list
       \<and> (\<forall>c \<in> set (split_into_chunks method_list CHUNK_SIZE). 0 < length c \<and> length c \<le> 100)
       \<and> (length method_list = 250
            \<longrightarrow> map length (split_into_chunks method_list CHUNK_SIZE) = [100, 100, 50])
       \<and> map (\<lambda>b. map (\<lambda>r. (rpc_method r, params r)) (rpc_list b)) bs
            = split_into_chunks method_list CHUNK_SIZE
       \<and> (\<exists>outs. length outs \<le> length bs
            \<and> wire (snd (execute_rpc_batch post method_list w))
                = wire w @ concat (map2 (\<lambda>b out. [Posted (url w) (assemble_batch b), out]) bs outs)
            \<and> set (butlast outs) \<subseteq> {Returned}
            \<and> (fst (execute_rpc_batch post method_list w) \<noteq> None
                  \<longrightarrow> outs = replicate (length bs) Returned))"
proof -
  have 1: "concat (split_into_chunks method_list CHUNK_SIZE) = method_list"
    by (rule concat_split_into_chunks)
  have 2: "\<forall>c \<in> set (split_into_chunks method_list CHUNK_SIZE). 0 < length c \<and> length c \<le> 100"
    using length_split_into_chunks [of _ method_list CHUNK_SIZE] by (simp add: CHUNK_SIZE_def)
  have 3: "length method_list = 250
            \<longrightarrow> map length (split_into_chunks method_list CHUNK_SIZE) = [100, 100, 50]"
    by (simp add: split_into_chunks_250)
  have 4: "map (\<lambda>b. map (\<lambda>r. (rpc_method r, params r)) (rpc_list b)) bs
            = split_into_chunks method_list CHUNK_SIZE"
    unfolding assms by (rule new_batches_requests)
  from 1 2 3 4 execute_rpc_batch_trace [OF assms, of post] show ?thesis
    by blast
qed

text \<open>250 requests against a transport that echoes each request in its envelope.\<close>

theorem chunks_sequential_witness:
  "length (replicate 250 (''getnewaddress'', [] :: json list)) = 250
   \<and> fst (execute_rpc_batch
            (\<lambda>u s p n. (case p of JArr qs \<Rightarrow> Inr (map (\<lambda>q. [(''result'', q), (''error'', JNull)]) qs)
                               | _ \<Rightarrow> Inl (ClientError ''not a batch''), Suc n))
            (replicate 250 (''getnewaddress'', []))
            (RPCHandler ''user'' ''secret'' ''127.0.0.1'' 8332 (0 :: nat) (\<lambda>k. k) True)) \<noteq> None
   \<and> map length (split_into_chunks (replicate 250 (''getnewaddress'', [] :: json list)) CHUNK_SIZE)
        = [100, 100, 50]
   \<and> (\<exists>outs.
        wire (snd (execute_rpc_batch
            (\<lambda>u s p n. (case p of JArr qs \<Rightarrow> Inr (map (\<lambda>q. [(''result'', q), (''error'', JNull)]) qs)
                               | _ \<Rightarrow> Inl (ClientError ''not a batch''), Suc n))
            (replicate 250 (''getnewaddress'', []))
            (RPCHandler ''user'' ''secret'' ''127.0.0.1'' 8332 (0 :: nat) (\<lambda>k. k) True)))
        = wire (RPCHandler ''user'' ''secret'' ''127.0.0.1'' 8332 (0 :: nat) (\<lambda>k. k) True)
          @ concat (map2 (\<lambda>b out. [Posted (url (RPCHandler ''user'' ''secret'' ''127.0.0.1'' 8332
                                                   (0 :: nat) (\<lambda>k. k) True))
                                        (assemble_batch b), out])
              (fst (new_batches (split_into_chunks (replicate 250 (''getnewaddress'', [])) CHUNK_SIZE)
                     (init_session (RPCHandler ''user'' ''secret'' ''127.0.0.1'' 8332 (0 :: nat)
                        (\<lambda>k. k) True))))
              outs)
        \<and> outs = replicate (length (fst (new_batches
                     (split_into_chunks (replicate 250 (''getnewaddress'', [])) CHUNK_SIZE)
                     (init_session (RPCHandler ''user'' ''secret'' ''127.0.0.1'' 8332 (0 :: nat)
                        (\<lambda>k. k) True))))) Returned)"
proof -
  let ?post = "\<lambda>(u :: string) (s :: client_session) p (n :: nat).
                 (case p of JArr qs \<Rightarrow> Inr (map (\<lambda>q. [(''result'', q), (''error'', JNull)]) qs)
                          | _ \<Rightarrow> Inl (ClientError ''not a batch''), Suc n)"
  let ?ml = "replicate 250 (''getnewaddress'', [] :: json list)"
  let ?w = "RPCHandler ''user'' ''secret'' ''127.0.0.1'' 8332 (0 :: nat) (\<lambda>k. k) True"
  have asm: "assemble_batch b = JArr (map assemble (rpc_list b))" for b
    by (simp add: assemble_batch_def assemble_def)
  have a: "length ?ml = 250" by simp
  have ne: "?ml \<noteq> []" by simp
  have h: "\<forall>b \<in> set (fst (new_batches (split_into_chunks ?ml CHUNK_SIZE) (init_session ?w))).
             \<forall>s n. \<exists>rs. fst (?post (url ?w) s (assemble_batch b) n) = Inr rs
                         \<and> list_all2 (\<lambda>r e. e = [(''result'', assemble r), (''error'', JNull)])
                              (rpc_list b) rs"
    by (simp add: asm list_all2_map2 list_all2_same)
  have b: "fst (execute_rpc_batch ?post ?ml ?w) \<noteq> None"
    using execute_rpc_batch_good [where post = ?post and w = ?w and method_list = ?ml
        and R = "\<lambda>r e. e = [(''result'', assemble r), (''error'', JNull)]", OF ne h]
    by auto
  from a b chunks_sequential [OF refl, where method_list = ?ml and w = ?w and post = ?post]
  show ?thesis
    by blast
qed

subsection \<open>The single call and the facade\<close>

lemma execute_rpc_single_trace:
  "\<exists>p out. wire (snd (execute_rpc_single post m ps w)) = wire w @ [Posted (url w) p, out]
      \<and> (fst (execute_rpc_single post m ps w) \<noteq> None \<longrightarrow> out = Returned)"
proof -
  let ?w1 = "snd (randint (init_session w))"
  obtain s where s: "session ?w1 = Some s"
    using init_session_fields(4) [of w] by (auto simp: randint_fields)
  have f: "url ?w1 = url w" "wire ?w1 = wire w"
    by (simp_all add: randint_fields init_session_fields)
  show ?thesis
    unfolding execute_rpc_single_def Let_def split_beta s f execute_Some
    by (auto split: sum.splits)
qed

lemma raised_in_single:
  assumes "Raised e \<in> set (drop (length (wire w)) (wire (snd (execute_rpc_single post m ps w))))"
  shows "fst (execute_rpc_single post m ps w) = None"
proof (rule ccontr)
  assume n: "fst (execute_rpc_single post m ps w) \<noteq> None"
  from execute_rpc_single_trace [of post m ps w] n obtain p where
    "wire (snd (execute_rpc_single post m ps w)) = wire w @ [Posted (url w) p, Returned]"
    by blast
  with assms show False by simp
qed

lemma facade_batch:
  "get_block_hash_batch post hs re w =
     (process_rpc_response_batch
        (fst (execute_rpc_batch post (map (\<lambda>h. (''getblockhash'', [JNum h])) hs) w)) re,
      snd (execute_rpc_batch post (map (\<lambda>h. (''getblockhash'', [JNum h])) hs) w))"
  by (simp add: get_block_hash_batch_def split_beta Let_def)

lemma facade_single:
  "get_block_hash post h re w =
     (process_rpc_response (fst (execute_rpc_single post ''getblockhash'' (Some [JNum h]) w)) re,
      snd (execute_rpc_single post ''getblockhash'' (Some [JNum h]) w))"
  by (simp add: get_block_hash_def split_beta)

text \<open>
  C2. If an exchange raised during a batch call, \<open>_execute_rpc_batch\<close> returns \<open>None\<close>,
  whatever the chunks before it returned; likewise \<open>_execute_rpc_single\<close>. The
  normalization maps \<open>None\<close> to the empty list for a batch and to \<open>None\<close> for a single
  call, so the facade methods return these values and raise nothing.
\<close>

theorem transport_failure_absent:
  "(Raised e \<in> set (drop (length (wire w)) (wire (snd (execute_rpc_batch post method_list w))))
      \<longrightarrow> fst (execute_rpc_batch post method_list w) = None)
   \<and> (Raised e \<in> set (drop (length (wire w)) (wire (snd (execute_rpc_single post1 m ps w))))
      \<longrightarrow> fst (execute_rpc_single post1 m ps w) = None)
   \<and> process_rpc_response_batch None return_error = Inr []
   \<and> process_rpc_response None return_error = Inr (Value JNull)
   \<and> (Raised e \<in> set (drop (length (wire w)) (wire (snd (get_block_hash_batch post hs return_error w))))
      \<longrightarrow> fst (get_block_hash_batch post hs return_error w) = Inr [])
   \<and> (Raised e \<in> set (drop (length (wire w)) (wire (snd (get_block_hash post1 h return_error w))))
      \<longrightarrow> fst (get_block_hash post1 h return_error w) = Inr (Value JNull))"
proof -
  have 1: "Raised e \<in> set (drop (length (wire w)) (wire (snd (execute_rpc_batch post method_list w))))
      \<longrightarrow> fst (execute_rpc_batch post method_list w) = None"
    using raised_in_batch by blast
  have 2: "Raised e \<in> set (drop (length (wire w)) (wire (snd (execute_rpc_single post1 m ps w))))
      \<longrightarrow> fst (execute_rpc_single post1 m ps w) = None"
    using raised_in_single by blast
  have 3: "process_rpc_response_batch None return_error = Inr []"
    by (simp add: process_rpc_response_batch_def)
  have 4: "process_rpc_response None return_error = Inr (Value JNull)"
    by (simp add: process_rpc_response_def)
  have 5: "Raised e \<in> set (drop (length (wire w)) (wire (snd (get_block_hash_batch post hs return_error w))))
      \<longrightarrow> fst (get_block_hash_batch post hs return_error w) = Inr []"
    unfolding facade_batch using raised_in_batch [of e w post] 3 by auto
  have 6: "Raised e \<in> set (drop (length (wire w)) (wire (snd (get_block_hash post1 h return_error w))))
      \<longrightarrow> fst (get_block_hash post1 h return_error w) = Inr (Value JNull)"
    unfolding facade_single using raised_in_single [of e w post1] 4 by auto
  from 1 2 3 4 5 6 show ?thesis by blast
qed

text \<open>A transport that refuses every connection.\<close>

theorem transport_failure_absent_witness:
  "Raised (ClientError ''connection refused'')
     \<in> set (drop (length (wire (RPCHandler ''user'' ''secret'' ''127.0.0.1'' 8332 () (\<lambda>k. k) True)))
          (wire (snd (execute_rpc_batch (\<lambda>u s p n. (Inl (ClientError ''connection refused''), n))
             [(''getblockhash'', [JNum 100])]
             (RPCHandler ''user'' ''secret'' ''127.0.0.1'' 8332 () (\<lambda>k. k) True)))))
   \<and> fst (execute_rpc_batch (\<lambda>u s p n. (Inl (ClientError ''connection refused''), n))
             [(''getblockhash'', [JNum 100])]
             (RPCHandler ''user'' ''secret'' ''127.0.0.1'' 8332 () (\<lambda>k. k) True)) = None
   \<and> Raised (ClientError ''connection refused'')
     \<in> set (drop (length (wire (RPCHandler ''user'' ''secret'' ''127.0.0.1'' 8332 () (\<lambda>k. k) True)))
          (wire (snd (get_block_hash (\<lambda>u s p n. (Inl (ClientError ''connection refused''), n))
             100 False
             (RPCHandler ''user'' ''secret'' ''127.0.0.1'' 8332 () (\<lambda>k. k) True)))))
   \<and> fst (get_block_hash (\<lambda>u s p n. (Inl (ClientError ''connection refused''), n))
             100 False
             (RPCHandler ''user'' ''secret'' ''127.0.0.1'' 8332 () (\<lambda>k. k) True))
       = Inr (Value JNull)"
proof -
  let ?w = "RPCHandler ''user'' ''secret'' ''127.0.0.1'' 8332 () (\<lambda>k. k) True"
  let ?e = "ClientError ''connection refused''"
  have a: "Raised ?e \<in> set (drop (length (wire ?w))
          (wire (snd (execute_rpc_batch (\<lambda>u s p n. (Inl ?e, n)) [(''getblockhash'', [JNum 100])] ?w))))"
    by (simp add: execute_rpc_batch_def split_into_chunks_def py_range_def CHUNK_SIZE_def
        init_session_def RPCHandler_def randint_def execute_def RPCBatch_def Let_def)
  have b: "Raised ?e \<in> set (drop (length (wire ?w))
          (wire (snd (get_block_hash (\<lambda>u s p n. (Inl ?e, n)) 100 False ?w))))"
    by (simp add: get_block_hash_def execute_rpc_single_def
        init_session_def RPCHandler_def randint_def execute_def Let_def)
  from a b
    transport_failure_absent [where e = ?e and w = ?w and post = "\<lambda>u s p n. (Inl ?e, n)"
      and ?post1.0 = "\<lambda>u s p n. (Inl ?e, n)" and method_list = "[(''getblockhash'', [JNum 100])]"
      and h = 100 and return_error = False]
  show ?thesis
    by blast
qed

end
